theory Spec2Isabelle
  imports Main
begin

section \<open>Values, errors and the wire vocabulary\<close>

text \<open>
  JSON values as \<open>json.loads\<close> produces them and as the prediction functions pass them on.
  Numbers are kept as integers; the functions modelled here never compute with them.
\<close>

datatype json =
    JNull
  | JBool bool
  | JNum int
  | JStr string
  | JArr "json list"
  | JObj "(string \<times> json) list"

type_synonym dict = "(string \<times> json) list"

text \<open>
  Every exception the modelled code raises is a value. The \<open>ValueError\<close>s of \<open>client.py\<close>
  are told apart by what their message is built from. \<open>AppError\<close> carries the message it
  was constructed with and the remaining keyword arguments; \<open>HTTPStatusError\<close> carries the
  status code that \<open>raise_for_status\<close> rejected.
\<close>

datatype value_error =
    UnexpectedSSELine string
  | UnsupportedProtocol string
  | CannotFindApiName string bool
  | InvalidFunctionIndex int
  | MultipleEndpoints

datatype error =
    QueueError string
  | AppError json dict
  | HTTPStatusError nat
  | TransportError string
  | RemoteProtocolError
  | JSONDecodeError
  | ValueError value_error
  | KeyError string
  | TypeError string
  | IndexError
  | InvalidAPIEndpointError
  | CancelledError
  | TimeoutError

text \<open>
  The members of \<open>utils.ServerMessage\<close> that \<open>client.py\<close> compares against. The enumeration
  is declared in \<open>gradio_client/utils.py\<close>; the functions below take its values as a
  parameter.
\<close>

record ServerMessage =
  heartbeat :: string
  server_stopped :: string
  close_stream :: string
  process_completed :: string

text \<open>
  A decoded record of the event stream (\<open>utils.Message\<close>, a typed dictionary): the keys
  \<open>msg\<close>, \<open>message\<close> and \<open>event_id\<close>, each possibly absent, and the other keys it carries.
\<close>

record Message =
  msg :: "string option"
  message :: "string option"
  event_id :: "string option"
  other_keys :: dict

section \<open>The stream demultiplexer\<close>

text \<open>
  The part of the \<open>Client\<close> object that \<open>stream_messages\<close> and \<open>send_data\<close> read and write.
  \<open>streaming_future\<close> is \<open>None\<close>, or \<open>Some done\<close> for a future handed to the executor.
\<close>

record Client =
  stream_open :: bool
  streaming_future :: "bool option"
  pending_messages_per_event :: "string \<rightharpoonup> Message option list"
  pending_event_ids :: "string set"

text \<open>What one pass of a loop body does: go on, return from the function, or raise.\<close>

datatype 'a flow = is_Continue: Continue 'a | is_Return: Return 'a | is_Raise: Raise error 'a

fun flow_state :: "'a flow \<Rightarrow> 'a" where
  "flow_state (Continue c) = c"
| "flow_state (Return c) = c"
| "flow_state (Raise e c) = c"

text \<open>
  \<open>for pending_messages in self.pending_messages_per_event.values():
  pending_messages.append(x)\<close>, used with the decoded record by \<open>stream_messages\<close> and
  with \<open>None\<close> by the \<open>close_stream\<close> callback of \<open>send_data\<close>.
\<close>

definition append_to_all ::
  "Message option \<Rightarrow> (string \<rightharpoonup> Message option list) \<Rightarrow> (string \<rightharpoonup> Message option list)" where
  "append_to_all x pm = (\<lambda>k. case pm k of None \<Rightarrow> None | Some l \<Rightarrow> Some (l @ [x]))"

text \<open>
  The body of \<open>stream_messages\<close> for one decoded record \<open>resp\<close> (the branch
  \<open>line.startswith("data:")\<close> after \<open>json.loads\<close>), in the order of the source:
  \<open>resp["msg"]\<close> is read first (a missing key raises), a heartbeat is skipped, a record
  whose \<open>message\<close> key (\<open>resp.get("message", "")\<close>, here \<open>get_message\<close>) equals
  \<open>server_stopped\<close> is appended to every inbox before the function returns,
  \<open>close_stream\<close> clears \<open>stream_open\<close> and
  returns; any other record is appended to the inbox of its \<open>event_id\<close>;
  \<open>process_completed\<close> removes the id from \<open>pending_event_ids\<close> (\<open>set.remove\<close> raises on
  an id that is not a member); last, an empty \<open>pending_event_ids\<close> ends the function
  unless the protocol is \<open>sse_v3\<close>.
\<close>

definition get_message :: "Message \<Rightarrow> string" where
  "get_message resp = (case message resp of None \<Rightarrow> [] | Some t \<Rightarrow> t)"

definition handle_resp :: "ServerMessage \<Rightarrow> string \<Rightarrow> Client \<Rightarrow> Message \<Rightarrow> Client flow" where
  "handle_resp sm protocol c resp =
    (case msg resp of
       None \<Rightarrow> Raise (KeyError ''msg'') c
     | Some m \<Rightarrow>
        if m = heartbeat sm then Continue c
        else if get_message resp = server_stopped sm then
          Return (c\<lparr>pending_messages_per_event :=
                      append_to_all (Some resp) (pending_messages_per_event c)\<rparr>)
        else if m = close_stream sm then Return (c\<lparr>stream_open := False\<rparr>)
        else
          (case event_id resp of
             None \<Rightarrow> Raise (KeyError ''event_id'') c
           | Some e \<Rightarrow>
              let pm = pending_messages_per_event c;
                  inbox = (case pm e of None \<Rightarrow> [] | Some l \<Rightarrow> l);
                  c1 = c\<lparr>pending_messages_per_event := pm(e \<mapsto> inbox @ [Some resp])\<rparr>
              in if m = process_completed sm \<and> e \<notin> pending_event_ids c1 then Raise (KeyError e) c1
                 else
                   let c2 = (if m = process_completed sm
                             then c1\<lparr>pending_event_ids := pending_event_ids c1 - {e}\<rparr>
                             else c1)
                   in if pending_event_ids c2 = {} \<and> protocol \<noteq> ''sse_v3''
                      then Return (c2\<lparr>stream_open := False\<rparr>)
                      else Continue c2))"

text \<open>
  One record of the stream after the framing loop has split the buffer at a blank line,
  decoded it and stripped trailing newlines: an empty line, a \<open>data:\<close> line whose body
  \<open>json.loads\<close> decodes, a \<open>data:\<close> line on which \<open>json.loads\<close> raises, or any other line.
\<close>

datatype sse_line =
    EmptyLine
  | DataLine Message
  | BadDataLine error
  | OtherLine string

definition handle_line :: "ServerMessage \<Rightarrow> string \<Rightarrow> Client \<Rightarrow> sse_line \<Rightarrow> Client flow" where
  "handle_line sm protocol c ln =
    (case ln of
       EmptyLine \<Rightarrow> Continue c
     | DataLine resp \<Rightarrow> handle_resp sm protocol c resp
     | BadDataLine e \<Rightarrow> Raise e c
     | OtherLine l \<Rightarrow> Raise (ValueError (UnexpectedSSELine l)) c)"

text \<open>
  The loop over the records of the stream: each record in turn, until one of them
  returns or raises.
\<close>

fun run_lines :: "ServerMessage \<Rightarrow> string \<Rightarrow> Client \<Rightarrow> sse_line list \<Rightarrow> Client flow" where
  "run_lines sm protocol c [] = Continue c"
| "run_lines sm protocol c (ln # lns) =
    (case handle_line sm protocol c ln of
       Continue c' \<Rightarrow> run_lines sm protocol c' lns
     | Return c' \<Rightarrow> Return c'
     | Raise e c' \<Rightarrow> Raise e c')"

text \<open>
  The \<open>try\<close> body of \<open>stream_messages\<close>: the records in order, then the way the byte
  stream ends (\<open>None\<close> when \<open>iter_bytes\<close> is exhausted and the function falls off its
  end, \<open>Some e\<close> when the transport raises).
\<close>

definition read_stream ::
  "ServerMessage \<Rightarrow> string \<Rightarrow> Client \<Rightarrow> sse_line list \<Rightarrow> error option \<Rightarrow> Client flow" where
  "read_stream sm protocol c lns fin =
    (case run_lines sm protocol c lns of
       Continue c' \<Rightarrow> (case fin of None \<Rightarrow> Return c' | Some e \<Rightarrow> Raise e c')
     | Return c' \<Rightarrow> Return c'
     | Raise e c' \<Rightarrow> Raise e c')"

text \<open>
  \<open>stream_messages\<close> with its handler: \<open>httpx.RemoteProtocolError\<close> is swallowed, every
  other exception is raised again. The result is the exception raised, if any, and the
  client afterwards.
\<close>

definition stream_messages ::
  "ServerMessage \<Rightarrow> string \<Rightarrow> Client \<Rightarrow> sse_line list \<Rightarrow> error option \<Rightarrow> error option \<times> Client" where
  "stream_messages sm protocol c lns fin =
    (case read_stream sm protocol c lns fin of
       Continue c' \<Rightarrow> (None, c')
     | Return c' \<Rightarrow> (None, c')
     | Raise e c' \<Rightarrow> (if e = RemoteProtocolError then (None, c') else (Some e, c')))"

text \<open>
  The vocabulary in which the history of \<open>pending_event_ids\<close> is stated: the id a record
  reports as completed (a decoded record whose \<open>msg\<close> is \<open>process_completed\<close>, with its
  \<open>event_id\<close>), and the ids so reported by a list of records, in order.
\<close>

definition completion_of :: "ServerMessage \<Rightarrow> sse_line \<Rightarrow> string option" where
  "completion_of sm ln =
    (case ln of
       DataLine r \<Rightarrow> (if msg r = Some (process_completed sm) then event_id r else None)
     | _ \<Rightarrow> None)"

fun completed_ids :: "ServerMessage \<Rightarrow> sse_line list \<Rightarrow> string list" where
  "completed_ids sm [] = []"
| "completed_ids sm (ln # lns) =
    (case completion_of sm ln of
       None \<Rightarrow> completed_ids sm lns
     | Some e \<Rightarrow> e # completed_ids sm lns)"

text \<open>
  The vocabulary in which the ways out of the loop are stated. A record stops the stream
  when it is decoded, is not a heartbeat and carries the server-stopped text or is a
  \<open>close_stream\<close> record. A job record is a decoded record that is none of heartbeat,
  server-stopped and \<open>close_stream\<close>. Handling a record raises when the line is not a
  \<open>data:\<close> line or does not decode, when the record has no \<open>msg\<close>, or when it is a job
  record without \<open>event_id\<close> or a \<open>process_completed\<close> record for an id that is not
  awaiting.
\<close>

definition stops_stream :: "ServerMessage \<Rightarrow> sse_line \<Rightarrow> bool" where
  "stops_stream sm ln =
    (case ln of
       DataLine r \<Rightarrow>
        (case msg r of
           None \<Rightarrow> False
         | Some m \<Rightarrow>
            m \<noteq> heartbeat sm \<and> (get_message r = server_stopped sm \<or> m = close_stream sm))
     | _ \<Rightarrow> False)"

definition job_record :: "ServerMessage \<Rightarrow> sse_line \<Rightarrow> bool" where
  "job_record sm ln =
    (case ln of
       DataLine r \<Rightarrow>
        (case msg r of
           None \<Rightarrow> False
         | Some m \<Rightarrow>
            m \<noteq> heartbeat sm \<and> get_message r \<noteq> server_stopped sm \<and> m \<noteq> close_stream sm)
     | _ \<Rightarrow> False)"

definition raises_at :: "ServerMessage \<Rightarrow> Client \<Rightarrow> sse_line \<Rightarrow> bool" where
  "raises_at sm c ln =
    (case ln of
       EmptyLine \<Rightarrow> False
     | BadDataLine e \<Rightarrow> True
     | OtherLine l \<Rightarrow> True
     | DataLine r \<Rightarrow>
        (case msg r of
           None \<Rightarrow> True
         | Some m \<Rightarrow>
            job_record sm ln \<and>
            (case event_id r of
               None \<Rightarrow> True
             | Some e \<Rightarrow> m = process_completed sm \<and> e \<notin> pending_event_ids c)))"

section \<open>Configuration, requests and \<open>send_data\<close>\<close>

text \<open>
  \<open>dependency.get("api_name")\<close>: a string, \<open>None\<close> (also when the key is absent) or \<open>False\<close>.
\<close>

datatype api_name = ApiName string | ApiNone | ApiFalse

text \<open>
  An entry of \<open>config["dependencies"]\<close>: its \<open>id\<close> (possibly absent), its \<open>api_name\<close> and
  the indices it lists under \<open>cancels\<close>.
\<close>

record dependency =
  dep_id :: "int option"
  dep_api_name :: api_name
  cancels :: "int list"

record ComponentApiType =
  skip :: bool
  value_is_file :: bool
  is_state :: bool

text \<open>
  The attributes of an \<open>Endpoint\<close> that the modelled methods read. \<open>endpoint_api_name\<close> is
  \<open>self.api_name\<close> (the dependency's name with a leading slash when it is a string);
  \<open>backend_fn\<close> and \<open>show_api\<close> stand for \<open>backend_fn is not None\<close> and the truth value of
  \<open>show_api\<close>; \<open>v3_compatibility\<close> holds for an object of class
  \<open>EndpointV3Compatibility\<close>, which \<open>Client.__init__\<close> builds when the protocol does not
  start with \<open>sse\<close>.
\<close>

record Endpoint =
  fn_index :: int
  endpoint_api_name :: api_name
  endpoint_protocol :: string
  is_valid :: bool
  backend_fn :: bool
  show_api :: bool
  parameters_info :: "json option"
  input_component_types :: "ComponentApiType list"
  output_component_types :: "ComponentApiType list"
  v3_compatibility :: bool

text \<open>
  The attributes of the \<open>Client\<close> that are fixed by \<open>__init__\<close>. \<open>app_version\<close> is the
  release of \<open>version.parse(config["version"])\<close> as its list of numbers; \<open>cancel_url\<close> is
  \<open>urljoin(src_prefixed, utils.CANCEL_URL)\<close>; \<open>client_download_files\<close> and
  \<open>skip_components\<close> are the truth values of \<open>download_files\<close> and \<open>_skip_components\<close>.
\<close>

record ClientConfig =
  dependencies :: "dependency list"
  endpoints :: "(int \<times> Endpoint) list"
  client_protocol :: string
  app_version :: "nat list"
  session_hash :: string
  api_url :: string
  cancel_url :: string
  sse_data_url :: string
  space_id :: "string option"
  client_download_files :: bool
  skip_components :: bool
  client_verbose :: bool

text \<open>
  An HTTP request as far as the model follows it (the URL and the JSON body), and the
  response: its status code and what \<open>req.json()["event_id"]\<close> gives (an error when the
  body is not JSON or has no such key).
\<close>

record request =
  req_url :: string
  req_json :: dict

record response =
  status_code :: nat
  json_event_id :: "error + string"

text \<open>\<open>{**a, **b}\<close>: the keys of \<open>a\<close> in order, overwritten by \<open>b\<close>, then the new keys of \<open>b\<close>.\<close>

fun dict_set :: "string \<Rightarrow> json \<Rightarrow> dict \<Rightarrow> dict" where
  "dict_set k v [] = [(k, v)]"
| "dict_set k v ((k', v') # kvs) = (if k = k' then (k, v) # kvs else (k', v') # dict_set k v kvs)"

fun dict_merge :: "dict \<Rightarrow> dict \<Rightarrow> dict" where
  "dict_merge a [] = a"
| "dict_merge a ((k, v) # b) = dict_merge (dict_set k v a) b"

text \<open>
  \<open>Response.raise_for_status\<close> of httpx: any status outside 200..299 raises
  \<open>HTTPStatusError\<close>.
\<close>

definition raise_for_status :: "response \<Rightarrow> error option" where
  "raise_for_status r =
    (if 200 \<le> status_code r \<and> status_code r < 300 then None
     else Some (HTTPStatusError (status_code r)))"

text \<open>
  \<open>Client.send_data\<close>. \<open>post\<close> is \<open>httpx.post\<close>: it raises or returns a response (headers
  and cookies are left out of the request). Status
  503 raises \<open>QueueError\<close> before \<open>raise_for_status\<close> is asked. With the event id read, a
  closed stream is marked open, and a new streaming future is handed to the executor when
  there is none or the last one is done.
\<close>

definition send_data ::
  "ClientConfig \<Rightarrow> (request \<Rightarrow> error + response) \<Rightarrow> Client \<Rightarrow> dict \<Rightarrow> dict
    \<Rightarrow> (error + string) \<times> Client" where
  "send_data cfg post c data hash_data =
    (case post \<lparr>req_url = sse_data_url cfg, req_json = dict_merge data hash_data\<rparr> of
       Inl e \<Rightarrow> (Inl e, c)
     | Inr req \<Rightarrow>
        if status_code req = 503 then (Inl (QueueError ''Queue is full! Please try again.''), c)
        else
          (case raise_for_status req of
             Some e \<Rightarrow> (Inl e, c)
           | None \<Rightarrow>
              (case json_event_id req of
                 Inl e \<Rightarrow> (Inl e, c)
               | Inr eid \<Rightarrow>
                  (Inr eid,
                   if \<not> stream_open c then
                     (let c1 = c\<lparr>stream_open := True\<rparr>
                      in if streaming_future c1 = None \<or> streaming_future c1 = Some True
                         then c1\<lparr>streaming_future := Some False\<rparr> else c1)
                   else c))))"

text \<open>
  The callback \<open>close_stream\<close> that \<open>send_data\<close> attaches to the streaming future, and the
  call the executor runs: \<open>stream_messages\<close>, then the future is done and the callback
  runs, whether the function returned or raised.
\<close>

definition close_stream_callback :: "Client \<Rightarrow> Client" where
  "close_stream_callback c =
    c\<lparr>stream_open := False,
      pending_messages_per_event := append_to_all None (pending_messages_per_event c)\<rparr>"

definition open_stream ::
  "ServerMessage \<Rightarrow> string \<Rightarrow> Client \<Rightarrow> sse_line list \<Rightarrow> error option \<Rightarrow> error option \<times> Client" where
  "open_stream sm protocol c lns fin =
    (case stream_messages sm protocol c lns fin of
       (err, c') \<Rightarrow> (err, close_stream_callback (c'\<lparr>streaming_future := Some True\<rparr>)))"

section \<open>The communicator and the prediction function\<close>

text \<open>
  \<open>utils.Status\<close>, \<open>utils.StatusUpdate\<close>, \<open>utils.JobStatus\<close> and \<open>utils.Communicator\<close> by the
  fields \<open>client.py\<close> reads and writes. \<open>time\<close> is a timestamp, when set. An output of a job is what
  \<open>process_predictions\<close> returns: a bare value or a tuple.
\<close>

datatype Status =
    STARTING
  | JOINED_QUEUE
  | PROCESSING
  | ITERATING
  | FINISHED
  | CANCELLED

record StatusUpdate =
  code :: Status
  rank :: "int option"
  queue_size :: "int option"
  success :: "bool option"
  time :: "nat option"
  eta :: "int option"
  progress_data :: "json option"

datatype prediction = Bare json | Tuple "json list"

record JobStatus =
  latest_status :: StatusUpdate
  outputs :: "prediction list"

record Communicator =
  should_cancel :: bool
  job :: JobStatus
  helper_event_id :: "string option"
  request_headers :: "dict option"

text \<open>
  The closure \<open>_cancel\<close> by what it closes over: the warning, whether a request is sent,
  the URL, and the body \<open>post_data()\<close> builds when the job is cancelled (for a direct
  cancellation the endpoint's index with the helper's event id of that moment, for the
  older servers the position of the chosen dependency, \<open>None\<close> when there is none).
\<close>

datatype post_data = DirectCancel int | LegacyCancel "nat option"

record cancel_closure =
  cancel_msg :: "string option"
  cancellable :: bool
  url :: string
  body :: post_data

text \<open>
  What the model takes from outside \<open>client.py\<close>: \<open>httpx.post\<close>; the helpers
  \<open>utils.get_pred_from_sse_v0\<close> and \<open>utils.get_pred_from_sse_v1plus\<close>, which raise or return
  the result dictionary (the second reads the shared inboxes of the client);
  \<open>huggingface_hub.space_info(space_id).private\<close>; \<open>utils.traverse\<close> with
  \<open>Endpoint._download_file\<close> over the list of predictions (the flag says whether
  \<open>is_file_obj_with_meta\<close> selects the files); \<open>utils.construct_args\<close>;
  \<open>make_cancel\<close> of \<open>EndpointV3Compatibility\<close>; the \<open>Communicator\<close> that its
  constructor builds from a fresh \<open>JobStatus()\<close> and the defaults of its fields; and the
  keyword parameters, other than \<open>message\<close>, that \<open>AppError.__init__\<close> of
  \<open>gradio_client/exceptions.py\<close> accepts.
\<close>

record world =
  http_post :: "request \<Rightarrow> error + response"
  get_pred_from_sse_v0 :: "dict \<Rightarrow> dict \<Rightarrow> Communicator \<Rightarrow> error + dict"
  get_pred_from_sse_v1plus ::
    "Communicator \<Rightarrow> Client \<Rightarrow> string \<Rightarrow> string \<Rightarrow> (error + dict) \<times> Client"
  space_private :: "string \<Rightarrow> error + bool"
  traverse_download :: "bool \<Rightarrow> json list \<Rightarrow> error + json list"
  construct_args :: "json option \<Rightarrow> json list \<Rightarrow> dict \<Rightarrow> error + json list"
  compat_make_cancel :: "Communicator option \<Rightarrow> error + cancel_closure option"
  fresh_communicator :: Communicator
  AppError_accepts :: "string \<Rightarrow> bool"

definition verbose_error_hint :: string where
  "verbose_error_hint =
    ''The upstream Gradio app has raised an exception but has not enabled '' @
    ''verbose error reporting. To enable, set show_error=True in launch().''"

text \<open>\<open>tuple(output)\<close> on a JSON value: a list, the characters of a string, the keys of an
  object; anything else is not iterable.\<close>

fun tuple_of :: "json \<Rightarrow> error + json list" where
  "tuple_of (JArr xs) = Inr xs"
| "tuple_of (JStr s) = Inr (map (\<lambda>ch. JStr [ch]) s)"
| "tuple_of (JObj kvs) = Inr (map (\<lambda>kv. JStr (fst kv)) kvs)"
| "tuple_of JNull = Inl (TypeError ''object is not iterable'')"
| "tuple_of (JBool b) = Inl (TypeError ''object is not iterable'')"
| "tuple_of (JNum n) = Inl (TypeError ''object is not iterable'')"

text \<open>
  The second half of \<open>_predict\<close>, from \<open>if "error" in result\<close> on. An \<open>error\<close> key whose
  value is \<open>None\<close> raises \<open>AppError\<close> with the fixed hint. Otherwise the value is popped
  from the dictionary and \<open>AppError(message=message, **result)\<close> is called with the
  remaining keys as keyword arguments: the call raises \<open>TypeError\<close> when one of them is
  \<open>message\<close> (a second value for that keyword) or a keyword the constructor does not
  accept, and else \<open>AppError\<close> is raised with the message and those keys. Without an
  \<open>error\<close> key, \<open>result["data"]\<close> is read; when it is missing, the handler asks whether
  the space is public (which may itself raise) and then raises \<open>KeyError\<close>, the two
  \<open>error\<close> tests of the handler being false there.
\<close>

definition interpret_result :: "ClientConfig \<Rightarrow> world \<Rightarrow> dict \<Rightarrow> error + json list" where
  "interpret_result cfg w result =
    (case map_of result ''error'' of
       Some err \<Rightarrow>
        if err = JNull then Inl (AppError (JStr verbose_error_hint) [])
        else
          (let rest = filter (\<lambda>kv. fst kv \<noteq> ''error'') result
           in if ''message'' \<in> fst ` set rest
              then Inl (TypeError ''got multiple values for keyword argument message'')
              else if \<not> list_all (\<lambda>kv. AppError_accepts w (fst kv)) rest
              then Inl (TypeError ''got an unexpected keyword argument'')
              else Inl (AppError err rest))
     | None \<Rightarrow>
        (case map_of result ''data'' of
           Some output \<Rightarrow> tuple_of output
         | None \<Rightarrow>
            (case space_id cfg of
               None \<Rightarrow> Inl (KeyError ''data'')
             | Some sid \<Rightarrow>
                if sid = [] then Inl (KeyError ''data'')
                else (case space_private w sid of
                        Inl e \<Rightarrow> Inl e
                      | Inr private \<Rightarrow> Inl (KeyError ''data'')))))"

text \<open>
  The first half of \<open>_predict\<close>, the function \<open>make_predict\<close> returns, with the helper it
  closes over: the request dictionaries and the dispatch on the protocol (for the
  multiplexed protocols \<open>send_data\<close>, the registration of the event id in
  \<open>pending_event_ids\<close> and \<open>pending_messages_per_event\<close> and on the helper, then the wait
  for the result). It gives the result dictionary or the exception raised, the client and
  the helper.
\<close>

definition get_result ::
  "ClientConfig \<Rightarrow> world \<Rightarrow> Endpoint \<Rightarrow> Communicator \<Rightarrow> Client \<Rightarrow> json list
    \<Rightarrow> (error + dict) \<times> Client \<times> Communicator" where
  "get_result cfg w ep helper c data =
    (let d = [(''data'', JArr data), (''fn_index'', JNum (fn_index ep)),
              (''session_hash'', JStr (session_hash cfg))];
         hash_data = [(''fn_index'', JNum (fn_index ep)),
                      (''session_hash'', JStr (session_hash cfg))]
     in if endpoint_protocol ep = ''sse'' then
          (get_pred_from_sse_v0 w d hash_data helper, c, helper)
        else if endpoint_protocol ep \<in> {''sse_v1'', ''sse_v2'', ''sse_v2.1'', ''sse_v3''} then
          (case send_data cfg (http_post w) c d hash_data of
             (Inl e, c1) \<Rightarrow> (Inl e, c1, helper)
           | (Inr eid, c1) \<Rightarrow>
              (let c2 = c1\<lparr>pending_event_ids := insert eid (pending_event_ids c1),
                           pending_messages_per_event := (pending_messages_per_event c1)(eid \<mapsto> [])\<rparr>;
                   helper' = helper\<lparr>helper_event_id := Some eid\<rparr>
               in case get_pred_from_sse_v1plus w helper' c2 eid (endpoint_protocol ep) of
                    (r, c3) \<Rightarrow> (r, c3, helper')))
        else (Inl (ValueError (UnsupportedProtocol (endpoint_protocol ep))), c, helper))"

text \<open>\<open>_predict\<close>: the result is fetched, then interpreted.\<close>

definition make_predict ::
  "ClientConfig \<Rightarrow> world \<Rightarrow> Endpoint \<Rightarrow> Communicator \<Rightarrow> Client \<Rightarrow> json list
    \<Rightarrow> (error + json list) \<times> Client \<times> Communicator" where
  "make_predict cfg w ep helper c data =
    (case get_result cfg w ep helper c data of
       (Inl e, c', helper') \<Rightarrow> (Inl e, c', helper')
     | (Inr result, c', helper') \<Rightarrow> (interpret_result cfg w result, c', helper'))"

section \<open>Post-processing of the predictions\<close>

text \<open>
  \<open>Endpoint.download_files\<close>: \<open>utils.traverse\<close> over the list of predictions, with
  \<open>is_file_obj_with_meta\<close> for protocol \<open>sse_v2.1\<close> and \<open>is_file_obj\<close> otherwise; a download
  may raise.
\<close>

definition download_files :: "ClientConfig \<Rightarrow> world \<Rightarrow> json list \<Rightarrow> error + json list" where
  "download_files cfg w data = traverse_download w (client_protocol cfg = ''sse_v2.1'') data"

text \<open>
  \<open>Endpoint.remove_skipped_components\<close>: \<open>zip(data, self.output_component_types,
  strict=False)\<close> stops at the shorter of the two.
\<close>

definition remove_skipped_components :: "Endpoint \<Rightarrow> json list \<Rightarrow> json list" where
  "remove_skipped_components ep data =
    map fst (filter (\<lambda>p. \<not> skip (snd p)) (zip data (output_component_types ep)))"

text \<open>
  \<open>Endpoint.reduce_singleton_output\<close>: \<open>data[0]\<close> raises \<open>IndexError\<close> on an empty tuple.
\<close>

definition reduce_singleton_output ::
  "ClientConfig \<Rightarrow> Endpoint \<Rightarrow> json list \<Rightarrow> error + prediction" where
  "reduce_singleton_output cfg ep data =
    (let effective_output_components =
           (if skip_components cfg
            then filter (\<lambda>oct. \<not> skip oct) (output_component_types ep)
            else output_component_types ep)
     in if length effective_output_components = 1
        then (case data of [] \<Rightarrow> Inl IndexError | x # xs \<Rightarrow> Inr (Bare x))
        else Inr (Tuple data))"

text \<open>\<open>Endpoint.process_predictions\<close>.\<close>

definition process_predictions ::
  "ClientConfig \<Rightarrow> world \<Rightarrow> Endpoint \<Rightarrow> json list \<Rightarrow> error + prediction" where
  "process_predictions cfg w ep predictions =
    (case (if client_download_files cfg then download_files cfg w predictions
           else Inr predictions) of
       Inl e \<Rightarrow> Inl e
     | Inr p1 \<Rightarrow>
        reduce_singleton_output cfg ep
          (if skip_components cfg then remove_skipped_components ep p1 else p1))"

text \<open>
  The vocabulary of the reduction rule: the values at the effective output slots (those
  of the slots not flagged \<open>skip\<close> when skip-filtering is enabled, all of them otherwise)
  and the number of effective slots.
\<close>

definition effective_values :: "ClientConfig \<Rightarrow> Endpoint \<Rightarrow> json list \<Rightarrow> json list" where
  "effective_values cfg ep data =
    (if skip_components cfg
     then map fst (filter (\<lambda>p. \<not> skip (snd p)) (zip data (output_component_types ep)))
     else data)"

definition effective_slot_count :: "ClientConfig \<Rightarrow> Endpoint \<Rightarrow> nat" where
  "effective_slot_count cfg ep =
    (if skip_components cfg
     then length (filter (\<lambda>oct. \<not> skip oct) (output_component_types ep))
     else length (output_component_types ep))"

section \<open>Cancellation\<close>

text \<open>
  \<open>self.client.app_version > version.Version("4.29.0")\<close> on the release numbers: the
  comparison of \<open>packaging\<close>, which pads the shorter release with zeros.
\<close>

fun release_gt :: "nat list \<Rightarrow> nat list \<Rightarrow> bool" where
  "release_gt [] ys = False"
| "release_gt (x # xs) [] = (0 < x \<or> release_gt xs [])"
| "release_gt (x # xs) (y # ys) = (y < x \<or> (x = y \<and> release_gt xs ys))"

text \<open>
  The candidates of \<open>make_cancel\<close>: position and dependency in the order of
  \<open>enumerate(config["dependencies"])\<close>, kept when the endpoint's index is among the
  dependency's \<open>cancels\<close>, with the other indices that dependency cancels.
\<close>

fun candidates_from :: "nat \<Rightarrow> int \<Rightarrow> dependency list \<Rightarrow> (nat \<times> int list) list" where
  "candidates_from i fi [] = []"
| "candidates_from i fi (dep # deps) =
    (if fi \<in> set (cancels dep)
     then (i, filter (\<lambda>d. d \<noteq> fi) (cancels dep)) # candidates_from (Suc i) fi deps
     else candidates_from (Suc i) fi deps)"

text \<open>
  \<open>min(candidates, key=lambda x: len(x[1]))\<close>: the first candidate of least key; a later
  one replaces the best so far only when its key is strictly smaller.
\<close>

fun min_from :: "(nat \<times> int list) \<Rightarrow> (nat \<times> int list) list \<Rightarrow> (nat \<times> int list)" where
  "min_from best [] = best"
| "min_from best (x # xs) =
    min_from (if length (snd x) < length (snd best) then x else best) xs"

text \<open>
  \<open>"/" + self.client.config["dependencies"][i].get("api_name")\<close> for each \<open>i\<close>: Python's
  list indexing (a negative index counts from the end, an index out of range raises),
  and the concatenation raises when the name is \<open>None\<close> or \<open>False\<close>.
\<close>

definition list_index :: "'a list \<Rightarrow> int \<Rightarrow> error + 'a" where
  "list_index xs i =
    (if 0 \<le> i \<and> i < int (length xs) then Inr (xs ! nat i)
     else if i < 0 \<and> - int (length xs) \<le> i then Inr (xs ! nat (int (length xs) + i))
     else Inl IndexError)"

fun other_api_names :: "dependency list \<Rightarrow> int list \<Rightarrow> error + string list" where
  "other_api_names deps [] = Inr []"
| "other_api_names deps (i # is) =
    (case list_index deps i of
       Inl e \<Rightarrow> Inl e
     | Inr dep \<Rightarrow>
        (case dep_api_name dep of
           ApiName n \<Rightarrow>
            (case other_api_names deps is of
               Inl e \<Rightarrow> Inl e
             | Inr ns \<Rightarrow> Inr ((''/'' @ n) # ns))
         | ApiNone \<Rightarrow> Inl (TypeError ''can only concatenate str to str'')
         | ApiFalse \<Rightarrow> Inl (TypeError ''can only concatenate str to str'')))"

fun join :: "string \<Rightarrow> string list \<Rightarrow> string" where
  "join sep [] = []"
| "join sep [x] = x"
| "join sep (x # y # ys) = x @ sep @ join sep (y # ys)"

definition also_cancels_msg :: "string list \<Rightarrow> string" where
  "also_cancels_msg names =
    ''Cancelled this job will also cancel any jobs for '' @ join '', '' names @
    '' that are currently running.''"

definition not_cancellable_msg :: string where
  "not_cancellable_msg =
    ''Cancelling this job will not stop the server from running. '' @
    ''To fix this, an event must be added to the upstream app that explicitly cancels this one or '' @
    ''the upstream app must be running Gradio 4.29.0 and greater.''"

text \<open>
  \<open>Endpoint.make_cancel\<close>. Without a helper it returns \<open>None\<close>. Building the warning about
  the other cancelled endpoints may raise.
\<close>

definition make_cancel ::
  "ClientConfig \<Rightarrow> Endpoint \<Rightarrow> Communicator option \<Rightarrow> error + cancel_closure option" where
  "make_cancel cfg ep helper =
    (case helper of
       None \<Rightarrow> Inr None
     | Some h \<Rightarrow>
        if release_gt (app_version cfg) [4, 29, 0] then
          Inr (Some \<lparr>cancel_msg = None, cancellable = True, url = cancel_url cfg,
                     body = DirectCancel (fn_index ep)\<rparr>)
        else
          (case candidates_from 0 (fn_index ep) (dependencies cfg) of
             [] \<Rightarrow>
              Inr (Some \<lparr>cancel_msg = Some not_cancellable_msg, cancellable = False,
                         url = api_url cfg, body = LegacyCancel None\<rparr>)
           | cand # cands \<Rightarrow>
              (case min_from cand cands of
                 (i, other_cancelled) \<Rightarrow>
                  if other_cancelled \<noteq> [] then
                    (case other_api_names (dependencies cfg) other_cancelled of
                       Inl e \<Rightarrow> Inl e
                     | Inr names \<Rightarrow>
                        Inr (Some \<lparr>cancel_msg = Some (also_cancels_msg names),
                                   cancellable = True, url = api_url cfg,
                                   body = LegacyCancel (Some i)\<rparr>))
                  else
                    Inr (Some \<lparr>cancel_msg = None, cancellable = True, url = api_url cfg,
                               body = LegacyCancel (Some i)\<rparr>))))"

text \<open>
  Running \<open>_cancel\<close>: what the caller and the network see, in order, and the exception of
  \<open>httpx.post\<close> if it raises. The response of the request is not looked at.
\<close>

datatype effect = Warn string | Post request

definition post_data_json :: "ClientConfig \<Rightarrow> Communicator \<Rightarrow> post_data \<Rightarrow> dict" where
  "post_data_json cfg helper b =
    (case b of
       DirectCancel fi \<Rightarrow>
        [(''fn_index'', JNum fi), (''session_hash'', JStr (session_hash cfg)),
         (''event_id'', (case helper_event_id helper of None \<Rightarrow> JNull | Some e \<Rightarrow> JStr e))]
     | LegacyCancel i \<Rightarrow>
        [(''data'', JArr []),
         (''fn_index'', (case i of None \<Rightarrow> JNull | Some n \<Rightarrow> JNum (int n))),
         (''session_hash'', JStr (session_hash cfg))])"

definition run_cancel ::
  "ClientConfig \<Rightarrow> world \<Rightarrow> Communicator \<Rightarrow> cancel_closure \<Rightarrow> effect list \<times> error option" where
  "run_cancel cfg w helper f =
    (let warned = (case cancel_msg f of
                     None \<Rightarrow> []
                   | Some m \<Rightarrow> if m = [] then [] else [Warn m])
     in if cancellable f then
          (let rq = \<lparr>req_url = url f, req_json = post_data_json cfg helper (body f)\<rparr>
           in (warned @ [Post rq],
               (case http_post w rq of Inl e \<Rightarrow> Some e | Inr r \<Rightarrow> None)))
        else (warned, None))"

section \<open>Jobs\<close>

text \<open>
  A \<open>concurrent.futures.Future\<close>: its state (a finished future holds the exception or the
  value of the call), the call the executor was given, and its done-callbacks.
\<close>

datatype future_state =
    F_PENDING
  | F_RUNNING
  | F_CANCELLED
  | F_FINISHED "error + prediction"

record work_item =
  item_endpoint :: int
  item_helper :: "Communicator option"
  item_args :: "json list"

record Future =
  state :: future_state
  work :: work_item
  done_callbacks :: "nat list"

definition Future_done :: "Future \<Rightarrow> bool" where
  "Future_done f = (case state f of F_CANCELLED \<Rightarrow> True | F_FINISHED r \<Rightarrow> True | _ \<Rightarrow> False)"

definition Future_exception :: "Future \<Rightarrow> error option" where
  "Future_exception f = (case state f of F_FINISHED (Inl e) \<Rightarrow> Some e | _ \<Rightarrow> None)"

text \<open>\<open>Future.cancel\<close>: a running or finished future cannot be cancelled.\<close>

definition Future_cancel :: "Future \<Rightarrow> bool \<times> Future" where
  "Future_cancel f =
    (case state f of
       F_RUNNING \<Rightarrow> (False, f)
     | F_FINISHED r \<Rightarrow> (False, f)
     | F_CANCELLED \<Rightarrow> (True, f)
     | F_PENDING \<Rightarrow> (True, f\<lparr>state := F_CANCELLED\<rparr>))"

text \<open>
  \<open>Future.result(timeout)\<close>. \<open>wait\<close> is the wait on the future's condition: the state in
  which it ends (at completion, or when the timeout has passed), or \<open>None\<close> when it never
  ends. The result is \<open>None\<close> when the call does not return.
\<close>

definition Future_result ::
  "(Future \<Rightarrow> nat option \<Rightarrow> future_state option) \<Rightarrow> Future \<Rightarrow> nat option
    \<Rightarrow> (error + prediction) option" where
  "Future_result wait f timeout =
    (case state f of
       F_CANCELLED \<Rightarrow> Some (Inl CancelledError)
     | F_FINISHED r \<Rightarrow> Some r
     | _ \<Rightarrow>
        (case wait f timeout of
           None \<Rightarrow> None
         | Some F_CANCELLED \<Rightarrow> Some (Inl CancelledError)
         | Some (F_FINISHED r) \<Rightarrow> Some r
         | Some _ \<Rightarrow> Some (Inl TimeoutError)))"

text \<open>
  A \<open>Job\<close>. The methods it inherits from \<open>Future\<close> read the wrapped future, to which
  \<open>__getattr__\<close> forwards every attribute the job does not have.
\<close>

record Job =
  future :: Future
  communicator :: "Communicator option"
  counter :: nat
  verbose :: bool
  job_space_id :: "string option"
  cancel_fn :: "cancel_closure option"

definition Job_result ::
  "(Future \<Rightarrow> nat option \<Rightarrow> future_state option) \<Rightarrow> Job \<Rightarrow> nat option
    \<Rightarrow> (error + prediction) option" where
  "Job_result wait j timeout = Future_result wait (future j) timeout"

text \<open>
  \<open>Job.status\<close> at time \<open>now\<close>. The notice it prints for a long estimated wait is console
  output and not part of the value.
\<close>

definition Job_status :: "nat \<Rightarrow> Job \<Rightarrow> StatusUpdate" where
  "Job_status now j =
    (let cancelled = (case communicator j of None \<Rightarrow> False | Some comm \<Rightarrow> should_cancel comm)
     in if cancelled then
          \<lparr>code = CANCELLED, rank = Some 0, queue_size = None, success = Some False,
           time = Some now, eta = None, progress_data = None\<rparr>
        else if Future_done (future j) then
          (if Future_exception (future j) = None then
             \<lparr>code = FINISHED, rank = Some 0, queue_size = None, success = Some True,
              time = Some now, eta = None, progress_data = None\<rparr>
           else
             \<lparr>code = FINISHED, rank = Some 0, queue_size = None, success = Some False,
              time = Some now, eta = None, progress_data = None\<rparr>)
        else
          (case communicator j of
             None \<Rightarrow>
              \<lparr>code = PROCESSING, rank = Some 0, queue_size = None, success = None,
               time = Some now, eta = None, progress_data = None\<rparr>
           | Some comm \<Rightarrow> latest_status (job comm)))"

text \<open>
  \<open>Job.cancel\<close>: what it returns or raises, the job afterwards, and what \<open>_cancel\<close> did.
  With a communicator the flag is set before \<open>_cancel\<close> runs, so it stays set when the
  request raises.
\<close>

definition Job_cancel ::
  "ClientConfig \<Rightarrow> world \<Rightarrow> Job \<Rightarrow> (error + bool) \<times> Job \<times> effect list" where
  "Job_cancel cfg w j =
    (case communicator j of
       Some comm \<Rightarrow>
        (let comm' = comm\<lparr>should_cancel := True\<rparr>;
             j' = j\<lparr>communicator := Some comm'\<rparr>
         in case cancel_fn j of
              None \<Rightarrow> (Inr True, j', [])
            | Some f \<Rightarrow>
               (case run_cancel cfg w comm' f of
                  (effs, Some e) \<Rightarrow> (Inl e, j', effs)
                | (effs, None) \<Rightarrow> (Inr True, j', effs)))
     | None \<Rightarrow>
        (case Future_cancel (future j) of
           (b, f') \<Rightarrow> (Inr b, j\<lparr>future := f'\<rparr>, [])))"

section \<open>\<open>submit\<close> and \<open>predict\<close>\<close>

text \<open>
  The loop of \<open>_infer_fn_index\<close> over \<open>enumerate(config["dependencies"])\<close>: the \<open>id\<close> of the
  first dependency whose name with a leading slash is \<open>api_name\<close> (its position when it
  has no \<open>id\<close>), \<open>None\<close> when the loop ends without a \<open>break\<close>.
\<close>

fun find_api_name :: "string \<Rightarrow> nat \<Rightarrow> dependency list \<Rightarrow> int option" where
  "find_api_name name i [] = None"
| "find_api_name name i (d # ds) =
    (case dep_api_name d of
       ApiName n \<Rightarrow>
        if ''/'' @ n = name then Some (case dep_id d of None \<Rightarrow> int i | Some k \<Rightarrow> k)
        else find_api_name name (Suc i) ds
     | ApiNone \<Rightarrow> find_api_name name (Suc i) ds
     | ApiFalse \<Rightarrow> find_api_name name (Suc i) ds)"

text \<open>\<open>Client._infer_fn_index\<close>. It reads the configuration and changes nothing.\<close>

definition infer_fn_index :: "ClientConfig \<Rightarrow> string option \<Rightarrow> int option \<Rightarrow> error + int" where
  "infer_fn_index cfg api_name fn_idx =
    (case api_name of
       Some name \<Rightarrow>
        (case find_api_name name 0 (dependencies cfg) of
           Some k \<Rightarrow> Inr k
         | None \<Rightarrow> Inl (ValueError (CannotFindApiName name (take 1 name \<noteq> ''/''))))
     | None \<Rightarrow>
        (case fn_idx of
           Some fi \<Rightarrow>
            (case map_of (endpoints cfg) fi of
               None \<Rightarrow> Inl (ValueError (InvalidFunctionIndex fi))
             | Some ep \<Rightarrow>
                if \<not> is_valid ep then Inl (ValueError (InvalidFunctionIndex fi)) else Inr fi)
         | None \<Rightarrow>
            (case filter (\<lambda>ep. is_valid ep \<and> endpoint_api_name ep \<noteq> ApiNone
                               \<and> backend_fn ep \<and> show_api ep)
                    (map snd (endpoints cfg)) of
               [ep] \<Rightarrow> Inr (fn_index ep)
             | _ \<Rightarrow> Inl (ValueError MultipleEndpoints))))"

text \<open>\<open>Client.new_helper\<close>.\<close>

definition new_helper :: "world \<Rightarrow> dict option \<Rightarrow> Communicator" where
  "new_helper w headers = (fresh_communicator w)\<lparr>request_headers := headers\<rparr>"

text \<open>
  The argument \<open>result_callbacks\<close>: \<open>None\<close>, one callable or a list of callables; the
  callbacks \<open>submit\<close> attaches, none when the argument is false.
\<close>

datatype result_callbacks = NoCallbacks | OneCallback nat | CallbackList "nat list"

fun callbacks_of :: "result_callbacks \<Rightarrow> nat list" where
  "callbacks_of NoCallbacks = []"
| "callbacks_of (OneCallback cb) = [cb]"
| "callbacks_of (CallbackList cbs) = cbs"

text \<open>
  \<open>Client.submit\<close>: the index is inferred, the endpoint looked up, the arguments completed
  (for an \<open>Endpoint\<close>), the helper made for the queued protocols, the call handed to the
  executor, the cancel function made, and the job built with its callbacks. It raises
  or returns the job.
\<close>

definition submit ::
  "ClientConfig \<Rightarrow> world \<Rightarrow> json list \<Rightarrow> dict \<Rightarrow> string option \<Rightarrow> int option \<Rightarrow> dict option
    \<Rightarrow> result_callbacks \<Rightarrow> error + Job" where
  "submit cfg w args kwargs api_name fn_idx headers cbs =
    (case infer_fn_index cfg api_name fn_idx of
       Inl e \<Rightarrow> Inl e
     | Inr inferred_fn_index \<Rightarrow>
        (case map_of (endpoints cfg) inferred_fn_index of
           None \<Rightarrow> Inl (KeyError ''endpoints'')
         | Some endpoint \<Rightarrow>
            (case (if \<not> v3_compatibility endpoint
                   then construct_args w (parameters_info endpoint) args kwargs
                   else Inr args) of
               Inl e \<Rightarrow> Inl e
             | Inr args' \<Rightarrow>
                (let helper =
                       (if endpoint_protocol endpoint \<in>
                             {''ws'', ''sse'', ''sse_v1'', ''sse_v2'', ''sse_v2.1'', ''sse_v3''}
                        then Some (new_helper w headers) else None);
                     fut = \<lparr>state = F_PENDING,
                            work = \<lparr>item_endpoint = inferred_fn_index, item_helper = helper,
                                    item_args = args'\<rparr>,
                            done_callbacks = []\<rparr>
                 in case (if v3_compatibility endpoint then compat_make_cancel w helper
                          else make_cancel cfg endpoint helper) of
                      Inl e \<Rightarrow> Inl e
                    | Inr cancel \<Rightarrow>
                       Inr \<lparr>future = fut\<lparr>done_callbacks := callbacks_of cbs\<rparr>,
                            communicator = helper, counter = 0,
                            verbose = client_verbose cfg, job_space_id = space_id cfg,
                            cancel_fn = cancel\<rparr>))))"

text \<open>
  \<open>Client.predict\<close>, from the source: \<open>_infer_fn_index\<close> first, then \<open>submit\<close> with the same
  arguments and \<open>result()\<close> on the job. \<open>cbs\<close> is the entry \<open>result_callbacks\<close> of
  \<open>**kwargs\<close>, which \<open>submit\<close> binds to its own parameter.
\<close>

definition predict ::
  "ClientConfig \<Rightarrow> world \<Rightarrow> (Future \<Rightarrow> nat option \<Rightarrow> future_state option) \<Rightarrow> json list \<Rightarrow> dict
    \<Rightarrow> string option \<Rightarrow> int option \<Rightarrow> dict option \<Rightarrow> result_callbacks
    \<Rightarrow> (error + prediction) option" where
  "predict cfg w wait args kwargs api_name fn_idx headers cbs =
    (case infer_fn_index cfg api_name fn_idx of
       Inl e \<Rightarrow> Some (Inl e)
     | Inr i \<Rightarrow>
        (case submit cfg w args kwargs api_name fn_idx headers cbs of
           Inl e \<Rightarrow> Some (Inl e)
         | Inr j \<Rightarrow> Job_result wait j None))"

text \<open>
  The blocking composition in the words of the claim: \<open>submit\<close> with the arguments, then
  \<open>result()\<close> with no timeout on the job it returns.
\<close>

definition submit_then_result ::
  "ClientConfig \<Rightarrow> world \<Rightarrow> (Future \<Rightarrow> nat option \<Rightarrow> future_state option) \<Rightarrow> json list \<Rightarrow> dict
    \<Rightarrow> string option \<Rightarrow> int option \<Rightarrow> dict option \<Rightarrow> result_callbacks
    \<Rightarrow> (error + prediction) option" where
  "submit_then_result cfg w wait args kwargs api_name fn_idx headers cbs =
    (case submit cfg w args kwargs api_name fn_idx headers cbs of
       Inl e \<Rightarrow> Some (Inl e)
     | Inr j \<Rightarrow> Job_result wait j None)"


section \<open>Concrete inputs\<close>

text \<open>
  Values at which the closed theorems below evaluate the definitions. The wire names are
  the discriminator names of the specification's wire contract.
\<close>

definition wire_names :: ServerMessage where
  "wire_names = \<lparr>heartbeat = ''heartbeat'', server_stopped = ''server_stopped'',
     close_stream = ''close_stream'', process_completed = ''process_completed''\<rparr>"

definition two_jobs :: Client where
  "two_jobs = \<lparr>stream_open = True, streaming_future = Some False,
     pending_messages_per_event = [''a'' \<mapsto> [], ''b'' \<mapsto> []],
     pending_event_ids = {''a'', ''b''}\<rparr>"

definition one_job :: Client where
  "one_job = \<lparr>stream_open = True, streaming_future = Some False,
     pending_messages_per_event = [''a'' \<mapsto> []],
     pending_event_ids = {''a''}\<rparr>"

definition idle_client :: Client where
  "idle_client = \<lparr>stream_open = True, streaming_future = Some False,
     pending_messages_per_event = Map.empty, pending_event_ids = {}\<rparr>"

definition progress_a :: Message where
  "progress_a = \<lparr>msg = Some ''process_generating'', message = None,
     event_id = Some ''a'', other_keys = []\<rparr>"

definition beat :: Message where
  "beat = \<lparr>msg = Some ''heartbeat'', message = None, event_id = None, other_keys = []\<rparr>"

definition stopped_in_msg :: Message where
  "stopped_in_msg = \<lparr>msg = Some ''server_stopped'', message = None,
     event_id = Some ''a'', other_keys = []\<rparr>"

definition stopped_in_message :: Message where
  "stopped_in_message = \<lparr>msg = Some ''unexpected_error'', message = Some ''server_stopped'',
     event_id = None, other_keys = []\<rparr>"

definition completed_a :: Message where
  "completed_a = \<lparr>msg = Some ''process_completed'', message = None,
     event_id = Some ''a'', other_keys = []\<rparr>"

definition completed_b :: Message where
  "completed_b = \<lparr>msg = Some ''process_completed'', message = None,
     event_id = Some ''b'', other_keys = []\<rparr>"

definition demo_status :: StatusUpdate where
  "demo_status = \<lparr>code = STARTING, rank = Some 0, queue_size = None, success = None,
     time = None, eta = None, progress_data = None\<rparr>"

definition demo_communicator :: Communicator where
  "demo_communicator = \<lparr>should_cancel = False,
     job = \<lparr>latest_status = demo_status, outputs = []\<rparr>,
     helper_event_id = None, request_headers = None\<rparr>"

definition demo_world :: world where
  "demo_world = \<lparr>
     http_post = (\<lambda>rq. Inr \<lparr>status_code = 200, json_event_id = Inr ''a''\<rparr>),
     get_pred_from_sse_v0 = (\<lambda>d h comm. Inr [(''data'', JArr [JNum 9])]),
     get_pred_from_sse_v1plus = (\<lambda>comm c eid p. (Inr [(''data'', JArr [JNum 9])], c)),
     space_private = (\<lambda>sid. Inr False),
     traverse_download = (\<lambda>meta xs. Inr xs),
     construct_args = (\<lambda>info args kwargs. Inr args),
     compat_make_cancel = (\<lambda>helper. Inr None),
     fresh_communicator = demo_communicator,
     AppError_accepts = (\<lambda>k. k \<in> {''duration'', ''visible'', ''title'', ''print_exception''})\<rparr>"

definition busy_world :: world where
  "busy_world = demo_world\<lparr>
     http_post := (\<lambda>rq. Inr \<lparr>status_code = 503, json_event_id = Inl JSONDecodeError\<rparr>)\<rparr>"

definition failing_world :: world where
  "failing_world = demo_world\<lparr>
     get_pred_from_sse_v0 := (\<lambda>d h comm. Inr [(''error'', JStr ''boom''), (''title'', JStr ''Error'')])\<rparr>"

definition calc_endpoint :: Endpoint where
  "calc_endpoint = \<lparr>fn_index = 0, endpoint_api_name = ApiName ''/predict'',
     endpoint_protocol = ''sse_v3'', is_valid = True, backend_fn = True, show_api = True,
     parameters_info = None, input_component_types = [],
     output_component_types =
       [\<lparr>skip = False, value_is_file = False, is_state = False\<rparr>,
        \<lparr>skip = True, value_is_file = False, is_state = True\<rparr>],
     v3_compatibility = False\<rparr>"

definition pair_endpoint :: Endpoint where
  "pair_endpoint = \<lparr>fn_index = 1, endpoint_api_name = ApiName ''/stop'',
     endpoint_protocol = ''sse_v3'', is_valid = True, backend_fn = True, show_api = True,
     parameters_info = None, input_component_types = [],
     output_component_types =
       [\<lparr>skip = False, value_is_file = False, is_state = False\<rparr>,
        \<lparr>skip = False, value_is_file = False, is_state = False\<rparr>],
     v3_compatibility = False\<rparr>"

definition demo_config :: ClientConfig where
  "demo_config = \<lparr>
     dependencies =
       [\<lparr>dep_id = Some 0, dep_api_name = ApiName ''predict'', cancels = []\<rparr>,
        \<lparr>dep_id = Some 1, dep_api_name = ApiName ''stop'', cancels = [0]\<rparr>],
     endpoints = [(0, calc_endpoint), (1, pair_endpoint)],
     client_protocol = ''sse_v3'', app_version = [4, 20, 0], session_hash = ''s'',
     api_url = ''http://host/api/predict/'', cancel_url = ''http://host/cancel'',
     sse_data_url = ''http://host/queue/join'', space_id = None,
     client_download_files = False, skip_components = True, client_verbose = False\<rparr>"

definition demo_future :: Future where
  "demo_future = \<lparr>state = F_FINISHED (Inr (Bare (JNum 9))),
     work = \<lparr>item_endpoint = 0, item_helper = Some demo_communicator, item_args = []\<rparr>,
     done_callbacks = []\<rparr>"

definition finished_job :: Job where
  "finished_job = \<lparr>future = demo_future, communicator = Some demo_communicator, counter = 0,
     verbose = False, job_space_id = None, cancel_fn = None\<rparr>"

definition legacy_finished_job :: Job where
  "legacy_finished_job = finished_job\<lparr>communicator := None\<rparr>"

definition demo_wait :: "Future \<Rightarrow> nat option \<Rightarrow> future_state option" where
  "demo_wait f timeout = Some (F_FINISHED (Inr (Bare (JNum 9))))"

definition silent_world :: world where
  "silent_world = demo_world\<lparr>
     get_pred_from_sse_v0 := (\<lambda>d h comm. Inr [(''error'', JNull)])\<rparr>"

definition clashing_world :: world where
  "clashing_world = demo_world\<lparr>
     get_pred_from_sse_v0 :=
       (\<lambda>d h comm. Inr [(''error'', JStr ''boom''), (''message'', JStr ''x'')])\<rparr>"

definition sse_endpoint :: Endpoint where
  "sse_endpoint = calc_endpoint\<lparr>endpoint_protocol := ''sse''\<rparr>"


section \<open>The server-stopped record (C7)\<close>

lemma append_to_all_entry:
  "pm k = Some l \<Longrightarrow> append_to_all x pm k = Some (l @ [x])"
  by (simp add: append_to_all_def)

lemma dom_append_to_all: "dom (append_to_all x pm) = dom pm"
  by (auto simp: append_to_all_def split: option.splits)

text \<open>
  C7, as stated, fails: the test for a stopped server reads the \<open>message\<close> key, not the
  \<open>msg\<close> discriminator. A record whose \<open>msg\<close> is the server-stopped name and that has no
  \<open>message\<close> key is treated as a job message: with two open inboxes \<open>a\<close> and \<open>b\<close> it
  is appended to the inbox of its own \<open>event_id\<close> only, the inbox of \<open>b\<close> stays empty,
  and the function does not return.
\<close>

theorem server_stopped_by_msg_counterexample:
  "msg stopped_in_msg = Some (server_stopped wire_names)
   \<and> pending_messages_per_event two_jobs ''b'' = Some []
   \<and> \<not> is_Return (handle_resp wire_names ''sse_v1'' two_jobs stopped_in_msg)
   \<and> pending_messages_per_event
        (flow_state (handle_resp wire_names ''sse_v1'' two_jobs stopped_in_msg)) ''b'' = Some []"
  by (simp add: handle_resp_def get_message_def wire_names_def two_jobs_def stopped_in_msg_def)

text \<open>
  C7, amended: \<open>stream_messages\<close> reads the \<open>msg\<close> discriminator of every decoded record
  first; a record that is not a heartbeat and whose \<open>message\<close> key equals the
  server-stopped text is appended to the inbox of every entry of
  \<open>pending_messages_per_event\<close> (no entry is added or dropped), and the function then
  returns without reading any further record, which closes the connection; the callback
  of the streaming future then clears \<open>stream_open\<close>.
\<close>

theorem server_stopped_fan_out:
  assumes "msg resp = Some m" and "m \<noteq> heartbeat sm"
    and "get_message resp = server_stopped sm"
  shows "handle_resp sm protocol c resp =
           Return (c\<lparr>pending_messages_per_event :=
                       append_to_all (Some resp) (pending_messages_per_event c)\<rparr>)
       \<and> (\<forall>k l. pending_messages_per_event c k = Some l \<longrightarrow>
             append_to_all (Some resp) (pending_messages_per_event c) k = Some (l @ [Some resp]))
       \<and> dom (append_to_all (Some resp) (pending_messages_per_event c))
           = dom (pending_messages_per_event c)
       \<and> run_lines sm protocol c (DataLine resp # rest) =
           Return (c\<lparr>pending_messages_per_event :=
                       append_to_all (Some resp) (pending_messages_per_event c)\<rparr>)
       \<and> stream_messages sm protocol c (DataLine resp # rest) fin =
           (None, c\<lparr>pending_messages_per_event :=
                       append_to_all (Some resp) (pending_messages_per_event c)\<rparr>)
       \<and> \<not> stream_open (snd (open_stream sm protocol c (DataLine resp # rest) fin))"
proof -
  have h: "handle_resp sm protocol c resp =
           Return (c\<lparr>pending_messages_per_event :=
                       append_to_all (Some resp) (pending_messages_per_event c)\<rparr>)"
    using assms by (simp add: handle_resp_def)
  then have "run_lines sm protocol c (DataLine resp # rest) =
           Return (c\<lparr>pending_messages_per_event :=
                       append_to_all (Some resp) (pending_messages_per_event c)\<rparr>)"
    by (simp add: handle_line_def)
  then show ?thesis
    using h by (simp add: append_to_all_entry dom_append_to_all read_stream_def stream_messages_def
        open_stream_def close_stream_callback_def)
qed

theorem server_stopped_fan_out_witness:
  "msg stopped_in_message = Some ''unexpected_error''
   \<and> ''unexpected_error'' \<noteq> heartbeat wire_names
   \<and> get_message stopped_in_message = server_stopped wire_names
   \<and> is_Return (handle_resp wire_names ''sse_v3'' two_jobs stopped_in_message)
   \<and> pending_messages_per_event
        (flow_state (handle_resp wire_names ''sse_v3'' two_jobs stopped_in_message)) ''a''
       = Some [Some stopped_in_message]
   \<and> pending_messages_per_event
        (flow_state (handle_resp wire_names ''sse_v3'' two_jobs stopped_in_message)) ''b''
       = Some [Some stopped_in_message]
   \<and> stream_open (flow_state (handle_resp wire_names ''sse_v3'' two_jobs stopped_in_message))"
proof -
  have a: "msg stopped_in_message = Some ''unexpected_error''"
    by (simp add: stopped_in_message_def)
  have b: "''unexpected_error'' \<noteq> heartbeat wire_names"
    by (simp add: wire_names_def)
  have c: "get_message stopped_in_message = server_stopped wire_names"
    by (simp add: get_message_def stopped_in_message_def wire_names_def)
  from server_stopped_fan_out[OF a b c, of "''sse_v3''" two_jobs "[]" None]
  have "handle_resp wire_names ''sse_v3'' two_jobs stopped_in_message =
           Return (two_jobs\<lparr>pending_messages_per_event :=
                       append_to_all (Some stopped_in_message) (pending_messages_per_event two_jobs)\<rparr>)"
    by blast
  then show ?thesis
    using a b c by (simp add: append_to_all_def two_jobs_def)
qed

section \<open>The awaiting set (C1)\<close>

lemma handle_resp_Continue_ids:
  assumes "heartbeat sm \<noteq> process_completed sm"
    and "handle_resp sm p c r = Continue c'"
  shows "(case completion_of sm (DataLine r) of
            None \<Rightarrow> pending_event_ids c' = pending_event_ids c
          | Some e \<Rightarrow> e \<in> pending_event_ids c \<and> pending_event_ids c' = pending_event_ids c - {e})"
  using assms
  by (auto simp: handle_resp_def completion_of_def Let_def split: option.splits if_split_asm)

lemma handle_line_Continue_ids:
  assumes "heartbeat sm \<noteq> process_completed sm"
    and "handle_line sm p c ln = Continue c'"
  shows "(case completion_of sm ln of
            None \<Rightarrow> pending_event_ids c' = pending_event_ids c
          | Some e \<Rightarrow> e \<in> pending_event_ids c \<and> pending_event_ids c' = pending_event_ids c - {e})"
proof (cases ln)
  case (DataLine r)
  with assms(2) have "handle_resp sm p c r = Continue c'" by (simp add: handle_line_def)
  from handle_resp_Continue_ids[OF assms(1) this] DataLine show ?thesis by simp
qed (use assms(2) in \<open>auto simp: handle_line_def completion_of_def\<close>)

lemma run_lines_history:
  assumes "heartbeat sm \<noteq> process_completed sm"
  shows "run_lines sm p c lns = Continue c' \<Longrightarrow>
     pending_event_ids c' = pending_event_ids c - set (completed_ids sm lns)
   \<and> set (completed_ids sm lns) \<subseteq> pending_event_ids c
   \<and> distinct (completed_ids sm lns)"
proof (induction lns arbitrary: c)
  case Nil
  then show ?case by simp
next
  case (Cons ln lns)
  from Cons.prems obtain c1 where
    step: "handle_line sm p c ln = Continue c1" and rest: "run_lines sm p c1 lns = Continue c'"
    by (auto split: flow.splits)
  note h = handle_line_Continue_ids[OF assms step]
  from Cons.IH[OF rest]
  have i1: "pending_event_ids c' = pending_event_ids c1 - set (completed_ids sm lns)"
    and i2: "set (completed_ids sm lns) \<subseteq> pending_event_ids c1"
    and i3: "distinct (completed_ids sm lns)" by auto
  show ?case
  proof (cases "completion_of sm ln")
    case None
    with h i1 i2 i3 show ?thesis by simp
  next
    case (Some e)
    with h have "e \<in> pending_event_ids c" "pending_event_ids c1 = pending_event_ids c - {e}"
      by auto
    with Some i1 i2 i3 show ?thesis by auto
  qed
qed

lemma handle_line_changes:
  "pending_event_ids (flow_state (handle_line sm p c ln)) = pending_event_ids c
   \<or> (\<exists>e. completion_of sm ln = Some e \<and> e \<in> pending_event_ids c
        \<and> pending_event_ids (flow_state (handle_line sm p c ln)) = pending_event_ids c - {e})"
  by (cases ln) (auto simp: handle_line_def handle_resp_def completion_of_def Let_def split: option.splits)

lemma handle_line_completion:
  assumes "heartbeat sm \<noteq> process_completed sm" "close_stream sm \<noteq> process_completed sm"
    and "msg r = Some (process_completed sm)" "get_message r \<noteq> server_stopped sm"
    and "event_id r = Some e" "e \<in> pending_event_ids c"
  shows "pending_event_ids (flow_state (handle_line sm p c (DataLine r))) = pending_event_ids c - {e}
    \<and> \<not> is_Raise (handle_line sm p c (DataLine r))"
  using assms by (auto simp: handle_line_def handle_resp_def Let_def split: option.splits)

lemma handle_line_second_completion:
  assumes "heartbeat sm \<noteq> process_completed sm" "close_stream sm \<noteq> process_completed sm"
    and "msg r = Some (process_completed sm)" "get_message r \<noteq> server_stopped sm"
    and "event_id r = Some e" "e \<notin> pending_event_ids c"
  shows "is_Raise (handle_line sm p c (DataLine r))
    \<and> pending_event_ids (flow_state (handle_line sm p c (DataLine r))) = pending_event_ids c"
  using assms by (auto simp: handle_line_def handle_resp_def Let_def split: option.splits)

text \<open>
  C1: while the loop keeps reading, \<open>pending_event_ids\<close> is the set it started with minus
  the ids of the \<open>process_completed\<close> records read so far; each of those ids was awaiting
  when its record arrived, and no id was reported twice, so every id left the set exactly
  once and at the first \<open>process_completed\<close> record for it. The next record changes the
  set only if it is a \<open>process_completed\<close> record for an id that is still awaiting (one
  with no earlier \<open>process_completed\<close> record), and then it removes exactly that id; a
  \<open>process_completed\<close> record for an id that is still awaiting removes it, and one for an
  id that is no longer awaiting raises and removes nothing. (A record carrying the
  server-stopped text in its \<open>message\<close> key is handled as a stopped server before its
  \<open>msg\<close> is compared with \<open>process_completed\<close>.)
\<close>

theorem awaiting_id_removed_once:
  assumes "heartbeat sm \<noteq> process_completed sm"
    and "close_stream sm \<noteq> process_completed sm"
    and "run_lines sm p c pre = Continue c1"
  shows "pending_event_ids c1 = pending_event_ids c - set (completed_ids sm pre)
       \<and> set (completed_ids sm pre) \<subseteq> pending_event_ids c
       \<and> distinct (completed_ids sm pre)
       \<and> (pending_event_ids (flow_state (handle_line sm p c1 ln)) = pending_event_ids c1
          \<or> (\<exists>e. completion_of sm ln = Some e \<and> e \<in> pending_event_ids c1
                \<and> e \<notin> set (completed_ids sm pre)
                \<and> pending_event_ids (flow_state (handle_line sm p c1 ln))
                    = pending_event_ids c1 - {e}))
       \<and> (\<forall>r e. ln = DataLine r \<and> msg r = Some (process_completed sm)
                \<and> get_message r \<noteq> server_stopped sm \<and> event_id r = Some e
              \<longrightarrow> (if e \<in> pending_event_ids c1
                   then \<not> is_Raise (handle_line sm p c1 ln)
                      \<and> pending_event_ids (flow_state (handle_line sm p c1 ln))
                          = pending_event_ids c1 - {e}
                   else is_Raise (handle_line sm p c1 ln)
                      \<and> pending_event_ids (flow_state (handle_line sm p c1 ln))
                          = pending_event_ids c1))"
proof -
  note hist = run_lines_history[OF assms(1) assms(3)]
  have step: "pending_event_ids (flow_state (handle_line sm p c1 ln)) = pending_event_ids c1
          \<or> (\<exists>e. completion_of sm ln = Some e \<and> e \<in> pending_event_ids c1
                \<and> e \<notin> set (completed_ids sm pre)
                \<and> pending_event_ids (flow_state (handle_line sm p c1 ln))
                    = pending_event_ids c1 - {e})"
    using handle_line_changes[of sm p c1 ln] hist by auto
  have compl: "\<forall>r e. ln = DataLine r \<and> msg r = Some (process_completed sm)
                \<and> get_message r \<noteq> server_stopped sm \<and> event_id r = Some e
              \<longrightarrow> (if e \<in> pending_event_ids c1
                   then \<not> is_Raise (handle_line sm p c1 ln)
                      \<and> pending_event_ids (flow_state (handle_line sm p c1 ln))
                          = pending_event_ids c1 - {e}
                   else is_Raise (handle_line sm p c1 ln)
                      \<and> pending_event_ids (flow_state (handle_line sm p c1 ln))
                          = pending_event_ids c1)"
    using handle_line_completion[OF assms(1,2), of _ _ c1 p]
      handle_line_second_completion[OF assms(1,2), of _ _ c1 p]
    by (intro allI impI) (simp split: if_splits)
  from hist step compl show ?thesis by blast
qed

theorem awaiting_id_removed_once_witness:
  "heartbeat wire_names \<noteq> process_completed wire_names
   \<and> close_stream wire_names \<noteq> process_completed wire_names
   \<and> is_Continue (run_lines wire_names ''sse_v3'' two_jobs [EmptyLine, DataLine completed_a])
   \<and> completed_ids wire_names [EmptyLine, DataLine completed_a] = [''a'']
   \<and> pending_event_ids
        (flow_state (run_lines wire_names ''sse_v3'' two_jobs [EmptyLine, DataLine completed_a]))
       = {''b''}
   \<and> pending_event_ids (flow_state (handle_line wire_names ''sse_v3''
        (flow_state (run_lines wire_names ''sse_v3'' two_jobs [EmptyLine, DataLine completed_a]))
        (DataLine completed_b))) = {}
   \<and> is_Raise (handle_line wire_names ''sse_v3''
        (flow_state (run_lines wire_names ''sse_v3'' two_jobs [EmptyLine, DataLine completed_a]))
        (DataLine completed_a))"
proof -
  have a: "heartbeat wire_names \<noteq> process_completed wire_names"
    and b: "close_stream wire_names \<noteq> process_completed wire_names"
    by (simp_all add: wire_names_def)
  have r: "run_lines wire_names ''sse_v3'' two_jobs [EmptyLine, DataLine completed_a] =
    Continue (two_jobs\<lparr>pending_messages_per_event :=
         (pending_messages_per_event two_jobs)(''a'' \<mapsto> [Some completed_a]),
       pending_event_ids := {''b''}\<rparr>)"
    by (simp add: handle_line_def handle_resp_def get_message_def wire_names_def two_jobs_def
        completed_a_def Let_def insert_Diff_if)
  have ids: "completed_ids wire_names [EmptyLine, DataLine completed_a] = [''a'']"
    by (simp add: completion_of_def wire_names_def completed_a_def)
  note t = awaiting_id_removed_once[OF a b r, THEN conjunct2, THEN conjunct2, THEN conjunct2,
      THEN conjunct2, rule_format]
  have ma: "msg completed_a = Some (process_completed wire_names)"
    "get_message completed_a \<noteq> server_stopped wire_names" "event_id completed_a = Some ''a''"
    by (simp_all add: get_message_def wire_names_def completed_a_def)
  have mb: "msg completed_b = Some (process_completed wire_names)"
    "get_message completed_b \<noteq> server_stopped wire_names" "event_id completed_b = Some ''b''"
    by (simp_all add: get_message_def wire_names_def completed_b_def)
  from t[OF conjI[OF refl conjI[OF mb(1) conjI[OF mb(2) mb(3)]]]]
  have 1: "pending_event_ids (flow_state (handle_line wire_names ''sse_v3''
        (two_jobs\<lparr>pending_messages_per_event :=
         (pending_messages_per_event two_jobs)(''a'' \<mapsto> [Some completed_a]),
       pending_event_ids := {''b''}\<rparr>) (DataLine completed_b))) = {}"
    by simp
  from t[OF conjI[OF refl conjI[OF ma(1) conjI[OF ma(2) ma(3)]]]]
  have 2: "is_Raise (handle_line wire_names ''sse_v3''
        (two_jobs\<lparr>pending_messages_per_event :=
         (pending_messages_per_event two_jobs)(''a'' \<mapsto> [Some completed_a]),
       pending_event_ids := {''b''}\<rparr>) (DataLine completed_a))"
    by simp
  from a b r ids 1 2 show ?thesis by simp
qed

section \<open>The ways out of the stream loop (C2)\<close>

lemma handle_line_raises: "is_Raise (handle_line sm protocol c ln) = raises_at sm c ln"
  by (cases ln)
     (auto simp: handle_line_def handle_resp_def raises_at_def job_record_def Let_def
           split: option.splits)

lemma handle_line_v3_returns: "is_Return (handle_line sm ''sse_v3'' c ln) = stops_stream sm ln"
  by (cases ln)
     (auto simp: handle_line_def handle_resp_def stops_stream_def Let_def split: option.splits)

lemma handle_line_old_returns:
  assumes "protocol \<noteq> ''sse_v3''"
  shows "is_Return (handle_line sm protocol c ln) =
     (stops_stream sm ln \<or>
      (job_record sm ln \<and> \<not> raises_at sm c ln
       \<and> pending_event_ids (flow_state (handle_line sm protocol c ln)) = {}))"
  using assms
  by (cases ln)
     (auto simp: handle_line_def handle_resp_def stops_stream_def job_record_def raises_at_def
           Let_def split: option.splits)

lemma handle_line_drained_closed:
  assumes "job_record sm ln" and "is_Return (handle_line sm protocol c ln)"
  shows "\<not> stream_open (flow_state (handle_line sm protocol c ln))"
  using assms
  by (cases ln)
     (auto simp: handle_line_def handle_resp_def job_record_def Let_def
           split: option.splits if_split_asm)

lemma handle_line_v3_keeps_open:
  assumes "job_record sm ln"
  shows "stream_open (flow_state (handle_line sm ''sse_v3'' c ln)) = stream_open c"
  using assms
  by (cases ln)
     (auto simp: handle_line_def handle_resp_def job_record_def Let_def split: option.splits)

lemma flow_cases3: "is_Continue x = (\<not> is_Return x \<and> \<not> is_Raise x)"
  by (cases x) auto

lemma run_lines_at_Return:
  "is_Return (handle_line sm protocol c ln) \<Longrightarrow>
     run_lines sm protocol c (ln # rest) = Return (flow_state (handle_line sm protocol c ln))
   \<and> stream_messages sm protocol c (ln # rest) fin
        = (None, flow_state (handle_line sm protocol c ln))"
  by (cases "handle_line sm protocol c ln") (simp_all add: stream_messages_def read_stream_def)

lemma run_lines_at_Continue:
  "is_Continue (handle_line sm protocol c ln) \<Longrightarrow>
     run_lines sm protocol c (ln # rest)
       = run_lines sm protocol (flow_state (handle_line sm protocol c ln)) rest"
  by (cases "handle_line sm protocol c ln") simp_all

lemma run_lines_stops_at:
  "run_lines sm protocol c lns = out \<Longrightarrow> \<not> is_Continue out \<Longrightarrow>
    \<exists>pre l post c1. lns = pre @ l # post
      \<and> run_lines sm protocol c pre = Continue c1
      \<and> handle_line sm protocol c1 l = out"
proof (induction lns arbitrary: c)
  case Nil
  then show ?case by auto
next
  case (Cons ln lns)
  show ?case
  proof (cases "handle_line sm protocol c ln")
    case (Continue c2)
    with Cons.prems have "run_lines sm protocol c2 lns = out" by simp
    from Cons.IH[OF this Cons.prems(2)] obtain pre l post c1 where
      "lns = pre @ l # post" "run_lines sm protocol c2 pre = Continue c1"
      "handle_line sm protocol c1 l = out" by blast
    with Continue have "ln # lns = (ln # pre) @ l # post
      \<and> run_lines sm protocol c (ln # pre) = Continue c1
      \<and> handle_line sm protocol c1 l = out" by simp
    then show ?thesis by blast
  next
    case (Return c2)
    with Cons.prems have "ln # lns = [] @ ln # lns
      \<and> run_lines sm protocol c [] = Continue c
      \<and> handle_line sm protocol c ln = out" by simp
    then show ?thesis by blast
  next
    case (Raise e c2)
    with Cons.prems have "ln # lns = [] @ ln # lns
      \<and> run_lines sm protocol c [] = Continue c
      \<and> handle_line sm protocol c ln = out" by simp
    then show ?thesis by blast
  qed
qed

lemma run_lines_v3_Return:
  assumes "run_lines sm ''sse_v3'' c lns = Return c'"
  shows "\<exists>pre l post c1. lns = pre @ l # post
      \<and> run_lines sm ''sse_v3'' c pre = Continue c1
      \<and> stops_stream sm l
      \<and> handle_line sm ''sse_v3'' c1 l = Return c'"
proof -
  from run_lines_stops_at[OF assms] obtain pre l post c1 where
    h: "lns = pre @ l # post" "run_lines sm ''sse_v3'' c pre = Continue c1"
       "handle_line sm ''sse_v3'' c1 l = Return c'" by auto
  from h(3) handle_line_v3_returns[of sm c1 l] have "stops_stream sm l" by simp
  with h show ?thesis by blast
qed

lemma run_lines_Raise:
  assumes "run_lines sm protocol c lns = Raise e c'"
  shows "\<exists>pre l post c1. lns = pre @ l # post
      \<and> run_lines sm protocol c pre = Continue c1
      \<and> raises_at sm c1 l
      \<and> handle_line sm protocol c1 l = Raise e c'"
proof -
  from run_lines_stops_at[OF assms] obtain pre l post c1 where
    h: "lns = pre @ l # post" "run_lines sm protocol c pre = Continue c1"
       "handle_line sm protocol c1 l = Raise e c'" by auto
  from h(3) handle_line_raises[of sm protocol c1 l] have "raises_at sm c1 l" by simp
  with h show ?thesis by blast
qed

lemma stream_messages_at_end:
  "run_lines sm protocol c lns = Continue c' \<Longrightarrow>
   stream_messages sm protocol c lns fin =
     ((case fin of None \<Rightarrow> None
       | Some e \<Rightarrow> if e = RemoteProtocolError then None else Some e), c')"
  by (simp add: stream_messages_def read_stream_def split: option.splits)

lemma last_completion_is_job_record:
  assumes "heartbeat sm \<noteq> process_completed sm" "close_stream sm \<noteq> process_completed sm"
    and "msg resp = Some (process_completed sm)" "get_message resp \<noteq> server_stopped sm"
    and "event_id resp = Some e" "pending_event_ids c = {e}"
  shows "job_record sm (DataLine resp) \<and> \<not> raises_at sm c (DataLine resp)
       \<and> \<not> stops_stream sm (DataLine resp)
       \<and> pending_event_ids (flow_state (handle_line sm protocol c (DataLine resp))) = {}"
  using assms
  by (auto simp: job_record_def raises_at_def stops_stream_def handle_line_def handle_resp_def
      Let_def)

text \<open>
  C2, as stated, fails in its second half: under \<open>sse_v3\<close> the loop also ends by
  raising at a record. On an idle stream (nothing awaiting, the transport intact, a
  further line unread) a line that is not a \<open>data:\<close> line ends \<open>stream_messages\<close> with
  \<open>ValueError\<close>, and a \<open>process_completed\<close> record ends it with \<open>KeyError\<close>; neither is
  a \<open>close_stream\<close> record, a server-stopped record or a failure of the transport.
\<close>

theorem v3_stream_raises_counterexample:
  "pending_event_ids idle_client = {}
   \<and> stream_messages wire_names ''sse_v3'' idle_client [OtherLine ''ping'', EmptyLine] None
       = (Some (ValueError (UnexpectedSSELine ''ping'')), idle_client)
   \<and> \<not> stops_stream wire_names (OtherLine ''ping'')
   \<and> fst (stream_messages wire_names ''sse_v3'' idle_client [DataLine completed_a, EmptyLine] None)
       = Some (KeyError ''a'')
   \<and> \<not> stops_stream wire_names (DataLine completed_a)"
  by (simp add: stream_messages_def read_stream_def handle_line_def handle_resp_def
      get_message_def stops_stream_def wire_names_def idle_client_def completed_a_def Let_def)

text \<open>
  C2, amended. For every protocol other than \<open>sse_v3\<close>, the loop returns, with
  \<open>stream_open\<close> cleared and whatever records follow, as soon as a job record (a decoded
  record that is not a heartbeat, a server-stopped or a \<open>close_stream\<close> record) leaves
  the awaiting set empty, in particular at the \<open>process_completed\<close> record that removes
  the last awaiting id; besides that it returns only at a record that stops the stream.
  Under \<open>sse_v3\<close> the emptiness of the awaiting set never ends the loop: it returns
  exactly at the records that stop the stream (server-stopped or \<open>close_stream\<close>), it
  goes on at every record that neither stops the stream nor raises (blank lines,
  heartbeats and job records, \<open>stream_open\<close> unchanged, whatever the awaiting set holds),
  and it raises exactly at a line that is not a \<open>data:\<close> line or does not decode, a
  record without \<open>msg\<close>, a job record without \<open>event_id\<close>, or a \<open>process_completed\<close>
  record for an id that is not awaiting. A loop that returned or raised did so at such a
  record after a prefix it went through; a loop that went through all records ends with
  the byte stream: normally when it is exhausted or the transport raised
  \<open>RemoteProtocolError\<close>, with the transport's exception otherwise.
\<close>

theorem stream_exit_rule:
  "is_Raise (handle_line sm protocol c ln) = raises_at sm c ln
   \<and> (protocol \<noteq> ''sse_v3'' \<longrightarrow>
        is_Return (handle_line sm protocol c ln) =
          (stops_stream sm ln \<or>
           (job_record sm ln \<and> \<not> raises_at sm c ln
            \<and> pending_event_ids (flow_state (handle_line sm protocol c ln)) = {})))
   \<and> (job_record sm ln \<and> is_Return (handle_line sm protocol c ln) \<longrightarrow>
        \<not> stream_open (flow_state (handle_line sm protocol c ln)))
   \<and> is_Return (handle_line sm ''sse_v3'' c ln) = stops_stream sm ln
   \<and> is_Continue (handle_line sm ''sse_v3'' c ln)
        = (\<not> stops_stream sm ln \<and> \<not> raises_at sm c ln)
   \<and> (job_record sm ln \<longrightarrow>
        stream_open (flow_state (handle_line sm ''sse_v3'' c ln)) = stream_open c)
   \<and> (is_Return (handle_line sm protocol c ln) \<longrightarrow>
        run_lines sm protocol c (ln # rest) = Return (flow_state (handle_line sm protocol c ln))
        \<and> stream_messages sm protocol c (ln # rest) fin
            = (None, flow_state (handle_line sm protocol c ln)))
   \<and> (is_Continue (handle_line sm protocol c ln) \<longrightarrow>
        run_lines sm protocol c (ln # rest)
          = run_lines sm protocol (flow_state (handle_line sm protocol c ln)) rest)
   \<and> (\<forall>c0 lns c'. run_lines sm ''sse_v3'' c0 lns = Return c' \<longrightarrow>
        (\<exists>pre l post c1. lns = pre @ l # post
           \<and> run_lines sm ''sse_v3'' c0 pre = Continue c1
           \<and> stops_stream sm l
           \<and> handle_line sm ''sse_v3'' c1 l = Return c'))
   \<and> (\<forall>c0 lns e c'. run_lines sm protocol c0 lns = Raise e c' \<longrightarrow>
        (\<exists>pre l post c1. lns = pre @ l # post
           \<and> run_lines sm protocol c0 pre = Continue c1
           \<and> raises_at sm c1 l
           \<and> handle_line sm protocol c1 l = Raise e c'))
   \<and> (\<forall>c0 lns c'. run_lines sm protocol c0 lns = Continue c' \<longrightarrow>
        stream_messages sm protocol c0 lns fin =
          ((case fin of None \<Rightarrow> None
            | Some e \<Rightarrow> if e = RemoteProtocolError then None else Some e), c'))
   \<and> (heartbeat sm \<noteq> process_completed sm \<and> close_stream sm \<noteq> process_completed sm
      \<and> msg resp = Some (process_completed sm) \<and> get_message resp \<noteq> server_stopped sm
      \<and> event_id resp = Some e \<and> pending_event_ids c = {e} \<longrightarrow>
        job_record sm (DataLine resp) \<and> \<not> raises_at sm c (DataLine resp)
        \<and> \<not> stops_stream sm (DataLine resp)
        \<and> pending_event_ids (flow_state (handle_line sm protocol c (DataLine resp))) = {})"
proof -
  have cont: "is_Continue (handle_line sm ''sse_v3'' c ln)
        = (\<not> stops_stream sm ln \<and> \<not> raises_at sm c ln)"
    using flow_cases3[of "handle_line sm ''sse_v3'' c ln"] handle_line_v3_returns[of sm c ln]
      handle_line_raises[of sm "''sse_v3''" c ln] by simp
  have last: "heartbeat sm \<noteq> process_completed sm \<and> close_stream sm \<noteq> process_completed sm
      \<and> msg resp = Some (process_completed sm) \<and> get_message resp \<noteq> server_stopped sm
      \<and> event_id resp = Some e \<and> pending_event_ids c = {e} \<longrightarrow>
        job_record sm (DataLine resp) \<and> \<not> raises_at sm c (DataLine resp)
        \<and> \<not> stops_stream sm (DataLine resp)
        \<and> pending_event_ids (flow_state (handle_line sm protocol c (DataLine resp))) = {}"
    using last_completion_is_job_record[of sm resp e c protocol] by blast
  have c1: "is_Raise (handle_line sm protocol c ln) = raises_at sm c ln"
    by (rule handle_line_raises)
  have c2: "protocol \<noteq> ''sse_v3'' \<longrightarrow>
        is_Return (handle_line sm protocol c ln) =
          (stops_stream sm ln \<or>
           (job_record sm ln \<and> \<not> raises_at sm c ln
            \<and> pending_event_ids (flow_state (handle_line sm protocol c ln)) = {}))"
    using handle_line_old_returns[of protocol sm c ln] by blast
  have c3: "job_record sm ln \<and> is_Return (handle_line sm protocol c ln) \<longrightarrow>
        \<not> stream_open (flow_state (handle_line sm protocol c ln))"
    using handle_line_drained_closed[of sm ln protocol c] by blast
  have c4: "is_Return (handle_line sm ''sse_v3'' c ln) = stops_stream sm ln"
    by (rule handle_line_v3_returns)
  have c6: "job_record sm ln \<longrightarrow>
        stream_open (flow_state (handle_line sm ''sse_v3'' c ln)) = stream_open c"
    using handle_line_v3_keeps_open[of sm ln c] by blast
  have c7: "is_Return (handle_line sm protocol c ln) \<longrightarrow>
        run_lines sm protocol c (ln # rest) = Return (flow_state (handle_line sm protocol c ln))
        \<and> stream_messages sm protocol c (ln # rest) fin
            = (None, flow_state (handle_line sm protocol c ln))"
    using run_lines_at_Return[of sm protocol c ln rest fin] by blast
  have c8: "is_Continue (handle_line sm protocol c ln) \<longrightarrow>
        run_lines sm protocol c (ln # rest)
          = run_lines sm protocol (flow_state (handle_line sm protocol c ln)) rest"
    using run_lines_at_Continue[of sm protocol c ln rest] by blast
  have c9: "\<forall>c0 lns c'. run_lines sm ''sse_v3'' c0 lns = Return c' \<longrightarrow>
        (\<exists>pre l post c1. lns = pre @ l # post
           \<and> run_lines sm ''sse_v3'' c0 pre = Continue c1
           \<and> stops_stream sm l
           \<and> handle_line sm ''sse_v3'' c1 l = Return c')"
    by (intro allI impI) (rule run_lines_v3_Return)
  have c10: "\<forall>c0 lns e c'. run_lines sm protocol c0 lns = Raise e c' \<longrightarrow>
        (\<exists>pre l post c1. lns = pre @ l # post
           \<and> run_lines sm protocol c0 pre = Continue c1
           \<and> raises_at sm c1 l
           \<and> handle_line sm protocol c1 l = Raise e c')"
    by (intro allI impI) (rule run_lines_Raise)
  have c11: "\<forall>c0 lns c'. run_lines sm protocol c0 lns = Continue c' \<longrightarrow>
        stream_messages sm protocol c0 lns fin =
          ((case fin of None \<Rightarrow> None
            | Some e \<Rightarrow> if e = RemoteProtocolError then None else Some e), c')"
    by (intro allI impI) (rule stream_messages_at_end)
  show ?thesis
    using c1 c2 c3 c4 cont c6 c7 c8 c9 c10 c11 last by (intro conjI) assumption+
qed

theorem stream_exit_rule_witness:
  "heartbeat wire_names \<noteq> process_completed wire_names
   \<and> close_stream wire_names \<noteq> process_completed wire_names
   \<and> msg completed_a = Some (process_completed wire_names)
   \<and> get_message completed_a \<noteq> server_stopped wire_names
   \<and> event_id completed_a = Some ''a''
   \<and> pending_event_ids one_job = {''a''}
   \<and> stream_messages wire_names ''sse_v1'' one_job [DataLine completed_a, OtherLine ''x''] None
       = (None, flow_state (handle_line wire_names ''sse_v1'' one_job (DataLine completed_a)))
   \<and> \<not> stream_open (flow_state (handle_line wire_names ''sse_v1'' one_job (DataLine completed_a)))
   \<and> is_Continue (handle_line wire_names ''sse_v3'' one_job (DataLine completed_a))
   \<and> pending_event_ids (flow_state (handle_line wire_names ''sse_v3'' one_job (DataLine completed_a)))
       = {}
   \<and> stream_open (flow_state (handle_line wire_names ''sse_v3'' one_job (DataLine completed_a)))
   \<and> is_Continue (handle_line wire_names ''sse_v3'' idle_client (DataLine progress_a))
   \<and> is_Continue (handle_line wire_names ''sse_v3'' idle_client (DataLine beat))
   \<and> is_Continue (handle_line wire_names ''sse_v3'' idle_client EmptyLine)
   \<and> is_Raise (handle_line wire_names ''sse_v3'' idle_client (OtherLine ''ping''))"
proof -
  have h: "heartbeat wire_names \<noteq> process_completed wire_names
     \<and> close_stream wire_names \<noteq> process_completed wire_names
     \<and> msg completed_a = Some (process_completed wire_names)
     \<and> get_message completed_a \<noteq> server_stopped wire_names
     \<and> event_id completed_a = Some ''a'' \<and> pending_event_ids one_job = {''a''}"
    by (simp add: get_message_def wire_names_def completed_a_def one_job_def)
  have v1: "''sse_v1'' \<noteq> ''sse_v3''" by simp
  have so: "stream_open one_job" by (simp add: one_job_def)
  note old = stream_exit_rule[where sm = wire_names and protocol = "''sse_v1''" and c = one_job
      and ln = "DataLine completed_a" and rest = "[OtherLine ''x'']" and fin = None
      and resp = completed_a and e = "''a''"]
  note new = stream_exit_rule[where sm = wire_names and protocol = "''sse_v3''" and c = one_job
      and ln = "DataLine completed_a" and resp = completed_a and e = "''a''"]
  note l1 = old[THEN conjunct2, THEN conjunct2, THEN conjunct2, THEN conjunct2, THEN conjunct2, THEN conjunct2, THEN conjunct2, THEN conjunct2, THEN conjunct2, THEN conjunct2, THEN conjunct2, rule_format, OF h]
  from old[THEN conjunct2, THEN conjunct1, rule_format, OF v1] l1
  have r1: "is_Return (handle_line wire_names ''sse_v1'' one_job (DataLine completed_a))"
    by blast
  note s1 = old[THEN conjunct2, THEN conjunct2, THEN conjunct2, THEN conjunct2, THEN conjunct2, THEN conjunct2, THEN conjunct1, rule_format, OF r1, THEN conjunct2]
  from l1 r1 have "job_record wire_names (DataLine completed_a)
     \<and> is_Return (handle_line wire_names ''sse_v1'' one_job (DataLine completed_a))" by blast
  note n1 = old[THEN conjunct2, THEN conjunct2, THEN conjunct1, rule_format, OF this]
  note l3 = new[THEN conjunct2, THEN conjunct2, THEN conjunct2, THEN conjunct2, THEN conjunct2, THEN conjunct2, THEN conjunct2, THEN conjunct2, THEN conjunct2, THEN conjunct2, THEN conjunct2, rule_format, OF h]
  from new[THEN conjunct2, THEN conjunct2, THEN conjunct2, THEN conjunct2, THEN conjunct1] l3
  have k1: "is_Continue (handle_line wire_names ''sse_v3'' one_job (DataLine completed_a))"
    by blast
  from l3 have k2: "pending_event_ids
     (flow_state (handle_line wire_names ''sse_v3'' one_job (DataLine completed_a))) = {}"
    by blast
  from l3 have "job_record wire_names (DataLine completed_a)" by blast
  from new[THEN conjunct2, THEN conjunct2, THEN conjunct2, THEN conjunct2, THEN conjunct2, THEN conjunct1, rule_format, OF this] so
  have k3: "stream_open (flow_state (handle_line wire_names ''sse_v3'' one_job (DataLine completed_a)))"
    by simp
  have p1: "\<not> stops_stream wire_names (DataLine progress_a)
     \<and> \<not> raises_at wire_names idle_client (DataLine progress_a)"
    by (simp add: stops_stream_def raises_at_def job_record_def get_message_def wire_names_def
        progress_a_def idle_client_def)
  have p2: "\<not> stops_stream wire_names (DataLine beat)
     \<and> \<not> raises_at wire_names idle_client (DataLine beat)"
    by (simp add: stops_stream_def raises_at_def job_record_def get_message_def wire_names_def
        beat_def idle_client_def)
  have p3: "\<not> stops_stream wire_names EmptyLine \<and> \<not> raises_at wire_names idle_client EmptyLine"
    by (simp add: stops_stream_def raises_at_def)
  have p4: "raises_at wire_names idle_client (OtherLine ''ping'')"
    by (simp add: raises_at_def)
  from stream_exit_rule[where sm = wire_names and c = idle_client and ln = "DataLine progress_a",
      THEN conjunct2, THEN conjunct2, THEN conjunct2, THEN conjunct2, THEN conjunct1] p1
  have q1: "is_Continue (handle_line wire_names ''sse_v3'' idle_client (DataLine progress_a))"
    by blast
  from stream_exit_rule[where sm = wire_names and c = idle_client and ln = "DataLine beat",
      THEN conjunct2, THEN conjunct2, THEN conjunct2, THEN conjunct2, THEN conjunct1] p2
  have q2: "is_Continue (handle_line wire_names ''sse_v3'' idle_client (DataLine beat))"
    by blast
  from stream_exit_rule[where sm = wire_names and c = idle_client and ln = EmptyLine,
      THEN conjunct2, THEN conjunct2, THEN conjunct2, THEN conjunct2, THEN conjunct1] p3
  have q3: "is_Continue (handle_line wire_names ''sse_v3'' idle_client EmptyLine)"
    by blast
  from stream_exit_rule[where sm = wire_names and protocol = "''sse_v3''" and c = idle_client
      and ln = "OtherLine ''ping''", THEN conjunct1] p4
  have q4: "is_Raise (handle_line wire_names ''sse_v3'' idle_client (OtherLine ''ping''))"
    by blast
  from h s1 n1 k1 k2 k3 q1 q2 q3 q4 show ?thesis by (intro conjI) blast+
qed

section \<open>The reduction rule (C3)\<close>

lemma length_filter_zip_snd:
  "length xs = length ys \<Longrightarrow>
   length (filter (\<lambda>p. P (snd p)) (zip xs ys)) = length (filter P ys)"
  by (induction xs ys rule: list_induct2) auto

text \<open>
  C3: let \<open>d\<close> be the predictions after the optional download, one value per output slot
  of the endpoint. With \<open>N\<close> the number of effective output slots (\<open>effective_slot_count\<close>:
  the slots not flagged \<open>skip\<close> when skip-filtering is enabled, all slots otherwise),
  \<open>process_predictions\<close> returns the bare first effective value when \<open>N = 1\<close> and
  otherwise the tuple of the effective values in order, which has length \<open>N\<close>; the same
  rule with and without skip-filtering.
\<close>

theorem reduction_rule:
  assumes "(if client_download_files cfg then download_files cfg w predictions
            else Inr predictions) = Inr d"
    and "length d = length (output_component_types ep)"
  shows "process_predictions cfg w ep predictions =
           (if effective_slot_count cfg ep = 1
            then Inr (Bare (hd (effective_values cfg ep d)))
            else Inr (Tuple (effective_values cfg ep d)))
       \<and> length (effective_values cfg ep d) = effective_slot_count cfg ep"
proof -
  have len: "length (effective_values cfg ep d) = effective_slot_count cfg ep"
    using assms(2) length_filter_zip_snd[of d "output_component_types ep" "\<lambda>oct. \<not> skip oct"]
    by (simp add: effective_values_def effective_slot_count_def)
  have pp: "process_predictions cfg w ep predictions =
     reduce_singleton_output cfg ep (effective_values cfg ep d)"
    using assms(1)
    by (simp add: process_predictions_def effective_values_def remove_skipped_components_def)
  have red: "reduce_singleton_output cfg ep (effective_values cfg ep d) =
     (if effective_slot_count cfg ep = 1
      then (case effective_values cfg ep d of [] \<Rightarrow> Inl IndexError | x # xs \<Rightarrow> Inr (Bare x))
      else Inr (Tuple (effective_values cfg ep d)))"
    by (simp add: reduce_singleton_output_def effective_slot_count_def)
  show ?thesis
  proof (cases "effective_slot_count cfg ep = 1")
    case True
    with len obtain x where "effective_values cfg ep d = [x]"
      by (cases "effective_values cfg ep d") auto
    with pp red True len show ?thesis by simp
  next
    case False
    with pp red len show ?thesis by simp
  qed
qed

theorem reduction_rule_witness:
  "(if client_download_files demo_config
    then download_files demo_config demo_world [JNum 9, JNull] else Inr [JNum 9, JNull])
     = Inr [JNum 9, JNull]
   \<and> length [JNum 9, JNull] = length (output_component_types calc_endpoint)
   \<and> effective_slot_count demo_config calc_endpoint = 1
   \<and> process_predictions demo_config demo_world calc_endpoint [JNum 9, JNull] = Inr (Bare (JNum 9))
   \<and> effective_slot_count demo_config pair_endpoint = 2
   \<and> process_predictions demo_config demo_world pair_endpoint [JStr ''ok'', JNum 9]
       = Inr (Tuple [JStr ''ok'', JNum 9])"
proof -
  have a: "(if client_download_files demo_config
    then download_files demo_config demo_world [JNum 9, JNull] else Inr [JNum 9, JNull])
     = Inr [JNum 9, JNull]"
    by (simp add: demo_config_def)
  have b: "length [JNum 9, JNull] = length (output_component_types calc_endpoint)"
    by (simp add: calc_endpoint_def)
  have a2: "(if client_download_files demo_config
    then download_files demo_config demo_world [JStr ''ok'', JNum 9] else Inr [JStr ''ok'', JNum 9])
     = Inr [JStr ''ok'', JNum 9]"
    by (simp add: demo_config_def)
  have b2: "length [JStr ''ok'', JNum 9] = length (output_component_types pair_endpoint)"
    by (simp add: pair_endpoint_def)
  have n1: "effective_slot_count demo_config calc_endpoint = 1"
    by (simp add: effective_slot_count_def demo_config_def calc_endpoint_def)
  have n2: "effective_slot_count demo_config pair_endpoint = 2"
    by (simp add: effective_slot_count_def demo_config_def pair_endpoint_def)
  have v1: "effective_values demo_config calc_endpoint [JNum 9, JNull] = [JNum 9]"
    by (simp add: effective_values_def demo_config_def calc_endpoint_def)
  have v2: "effective_values demo_config pair_endpoint [JStr ''ok'', JNum 9] = [JStr ''ok'', JNum 9]"
    by (simp add: effective_values_def demo_config_def pair_endpoint_def)
  from reduction_rule[OF a b] n1 v1
  have 1: "process_predictions demo_config demo_world calc_endpoint [JNum 9, JNull]
             = Inr (Bare (JNum 9))" by simp
  from reduction_rule[OF a2 b2] n2 v2
  have 2: "process_predictions demo_config demo_world pair_endpoint [JStr ''ok'', JNum 9]
       = Inr (Tuple [JStr ''ok'', JNum 9])" by simp
  from a b n1 1 n2 2 show ?thesis by simp
qed

section \<open>Queue-full and remote-application errors (C6, C8)\<close>

text \<open>
  C6: when the submit request of \<open>send_data\<close> is answered with status 503, \<open>QueueError\<close> is
  raised and the client is left as it was; any other status outside 200..299 raises
  \<open>HTTPStatusError\<close> and a failure of the transport raises the transport's exception,
  both different exceptions from \<open>QueueError\<close>. For the protocols \<open>sse_v1\<close>, \<open>sse_v2\<close>,
  \<open>sse_v2.1\<close> and \<open>sse_v3\<close> the prediction function raises that \<open>QueueError\<close> to its caller
  before any event id is registered.
\<close>

theorem queue_full_is_distinct:
  "(post \<lparr>req_url = sse_data_url cfg, req_json = dict_merge data hash_data\<rparr> = Inr r
      \<and> status_code r = 503 \<longrightarrow>
        send_data cfg post c data hash_data
          = (Inl (QueueError ''Queue is full! Please try again.''), c))
   \<and> (post \<lparr>req_url = sse_data_url cfg, req_json = dict_merge data hash_data\<rparr> = Inr r
      \<and> status_code r \<noteq> 503 \<and> \<not> (200 \<le> status_code r \<and> status_code r < 300) \<longrightarrow>
        send_data cfg post c data hash_data = (Inl (HTTPStatusError (status_code r)), c)
        \<and> HTTPStatusError (status_code r) \<noteq> QueueError m)
   \<and> (post \<lparr>req_url = sse_data_url cfg, req_json = dict_merge data hash_data\<rparr>
        = Inl (TransportError t) \<longrightarrow>
        send_data cfg post c data hash_data = (Inl (TransportError t), c)
        \<and> TransportError t \<noteq> QueueError m)
   \<and> ((\<forall>rq. http_post w rq = Inr r) \<and> status_code r = 503
      \<and> endpoint_protocol ep \<in> {''sse_v1'', ''sse_v2'', ''sse_v2.1'', ''sse_v3''} \<longrightarrow>
        make_predict cfg w ep helper c args
          = (Inl (QueueError ''Queue is full! Please try again.''), c, helper))"
proof -
  have "(\<forall>rq. http_post w rq = Inr r) \<and> status_code r = 503
      \<and> endpoint_protocol ep \<in> {''sse_v1'', ''sse_v2'', ''sse_v2.1'', ''sse_v3''} \<longrightarrow>
        make_predict cfg w ep helper c args
          = (Inl (QueueError ''Queue is full! Please try again.''), c, helper)"
    by (auto simp: make_predict_def get_result_def send_data_def Let_def)
  then show ?thesis
    by (simp add: send_data_def raise_for_status_def)
qed

theorem queue_full_is_distinct_witness:
  "send_data demo_config (http_post busy_world) one_job [] []
     = (Inl (QueueError ''Queue is full! Please try again.''), one_job)
   \<and> make_predict demo_config busy_world calc_endpoint demo_communicator one_job []
     = (Inl (QueueError ''Queue is full! Please try again.''), one_job, demo_communicator)"
proof -
  have p: "http_post busy_world \<lparr>req_url = sse_data_url demo_config, req_json = dict_merge [] []\<rparr>
            = Inr \<lparr>status_code = 503, json_event_id = Inl JSONDecodeError\<rparr>"
    by (simp add: busy_world_def demo_world_def)
  have q: "\<forall>rq. http_post busy_world rq = Inr \<lparr>status_code = 503, json_event_id = Inl JSONDecodeError\<rparr>"
    by (simp add: busy_world_def demo_world_def)
  have e: "endpoint_protocol calc_endpoint \<in> {''sse_v1'', ''sse_v2'', ''sse_v2.1'', ''sse_v3''}"
    by (simp add: calc_endpoint_def)
  note t = queue_full_is_distinct[of "http_post busy_world" demo_config "[]" "[]"
      "\<lparr>status_code = 503, json_event_id = Inl JSONDecodeError\<rparr>" one_job _ _ busy_world
      calc_endpoint demo_communicator "[]"]
  have s: "status_code \<lparr>status_code = 503, json_event_id = Inl JSONDecodeError\<rparr> = 503"
    by simp
  from t[THEN conjunct1, rule_format, OF conjI[OF p s]]
  have 1: "send_data demo_config (http_post busy_world) one_job [] []
     = (Inl (QueueError ''Queue is full! Please try again.''), one_job)" .
  from t[THEN conjunct2, THEN conjunct2, THEN conjunct2, rule_format, OF conjI[OF q conjI[OF s e]]]
  have 2: "make_predict demo_config busy_world calc_endpoint demo_communicator one_job []
     = (Inl (QueueError ''Queue is full! Please try again.''), one_job, demo_communicator)" .
  from 1 2 show ?thesis by simp
qed

text \<open>
  The path of \<open>_predict\<close> on which an \<open>error\<close> key does raise \<open>AppError\<close>: the value is
  \<open>None\<close>, or the other keys of the result are keywords that \<open>AppError\<close> accepts and none
  of them is \<open>message\<close>. \<open>data\<close> is not read on it.
\<close>

lemma error_result_AppError_path:
  assumes "get_result cfg w ep helper c args = (Inr result, c', helper')"
    and "map_of result ''error'' = Some err"
    and "err = JNull \<or> (''message'' \<notin> fst ` set result
           \<and> list_all (\<lambda>kv. AppError_accepts w (fst kv))
                 (filter (\<lambda>kv. fst kv \<noteq> ''error'') result))"
  shows "make_predict cfg w ep helper c args =
           (if err = JNull then Inl (AppError (JStr verbose_error_hint) [])
            else Inl (AppError err (filter (\<lambda>kv. fst kv \<noteq> ''error'') result)), c', helper')"
proof -
  have "err \<noteq> JNull \<Longrightarrow> ''message'' \<notin> fst ` set (filter (\<lambda>kv. fst kv \<noteq> ''error'') result)"
    using assms(3) by auto
  then have "interpret_result cfg w result =
           (if err = JNull then Inl (AppError (JStr verbose_error_hint) [])
            else Inl (AppError err (filter (\<lambda>kv. fst kv \<noteq> ''error'') result)))"
    using assms(2,3) by (auto simp: interpret_result_def Let_def)
  then show ?thesis using assms(1) by (simp add: make_predict_def)
qed

lemma error_result_AppError_path_examples:
  "make_predict demo_config failing_world sse_endpoint demo_communicator one_job []
     = (Inl (AppError (JStr ''boom'') [(''title'', JStr ''Error'')]), one_job, demo_communicator)
   \<and> make_predict demo_config silent_world sse_endpoint demo_communicator one_job []
     = (Inl (AppError (JStr verbose_error_hint) []), one_job, demo_communicator)"
  by (simp add: make_predict_def get_result_def interpret_result_def failing_world_def
      silent_world_def demo_world_def sse_endpoint_def calc_endpoint_def Let_def)

text \<open>
  C8 does not hold of the code: \<open>_predict\<close> means to raise \<open>AppError\<close> for every result
  with an \<open>error\<close> key, but it passes the other keys of the result on as keyword
  arguments of \<open>AppError(message=message, **result)\<close>. A result with the keys \<open>error\<close>
  (not \<open>None\<close>) and \<open>message\<close> makes that call raise \<open>TypeError\<close>, whatever keywords
  \<open>AppError\<close> accepts; so does a key the constructor does not know, here \<open>code\<close>.
\<close>

theorem error_result_raises_TypeError:
  "interpret_result cfg w [(''error'', JStr ''boom''), (''message'', JStr ''x'')]
     = Inl (TypeError ''got multiple values for keyword argument message'')
   \<and> make_predict demo_config clashing_world sse_endpoint demo_communicator one_job []
     = (Inl (TypeError ''got multiple values for keyword argument message''),
        one_job, demo_communicator)
   \<and> interpret_result demo_config demo_world [(''error'', JStr ''boom''), (''code'', JNum 500)]
     = Inl (TypeError ''got an unexpected keyword argument'')"
  by (simp add: make_predict_def get_result_def interpret_result_def clashing_world_def
      demo_world_def sse_endpoint_def calc_endpoint_def Let_def)

section \<open>Cancellation on older servers (C9)\<close>

lemma candidates_from_mem:
  "(i, os) \<in> set (candidates_from k fi deps) \<longleftrightarrow>
     k \<le> i \<and> i - k < length deps \<and> fi \<in> set (cancels (deps ! (i - k)))
     \<and> os = filter (\<lambda>d. d \<noteq> fi) (cancels (deps ! (i - k)))"
proof (induction deps arbitrary: k)
  case Nil
  then show ?case by simp
next
  case (Cons dep deps)
  have nth: "\<And>j. Suc k \<le> j \<Longrightarrow> (dep # deps) ! (j - k) = deps ! (j - Suc k)"
    by (simp add: Suc_diff_le)
  show ?case
  proof (cases "i = k")
    case True
    then show ?thesis using Cons.IH[of "Suc k"] by auto
  next
    case False
    then show ?thesis
      using Cons.IH[of "Suc k"] nth[of i]
      by (cases "k \<le> i") (auto simp: Suc_le_eq less_Suc_eq_le Suc_diff_le)
  qed
qed

lemma min_from_mem: "min_from b xs \<in> set (b # xs)"
  by (induction xs arbitrary: b) auto

lemma min_from_le_best: "length (snd (min_from b xs)) \<le> length (snd b)"
proof (induction xs arbitrary: b)
  case Nil
  then show ?case by simp
next
  case (Cons x xs)
  show ?case
    using Cons.IH[of x] Cons.IH[of b] by (simp split: if_splits)
qed

lemma min_from_least: "c \<in> set (b # xs) \<Longrightarrow> length (snd (min_from b xs)) \<le> length (snd c)"
proof (induction xs arbitrary: b)
  case Nil
  then show ?case by simp
next
  case (Cons x xs)
  show ?case
  proof (cases "length (snd x) < length (snd b)")
    case True
    with Cons.prems Cons.IH[of x] min_from_le_best[of x xs] show ?thesis
      by auto
  next
    case False
    with Cons.prems Cons.IH[of b] min_from_le_best[of b xs] show ?thesis
      by auto
  qed
qed

lemma make_cancel_legacy_some:
  assumes old: "\<not> release_gt (app_version cfg) [4, 29, 0]"
    and cs: "candidates_from 0 (fn_index ep) (dependencies cfg) = cand # cands"
    and mk: "make_cancel cfg ep (Some helper) = Inr (Some f)"
  shows "\<exists>i oc. min_from cand cands = (i, oc) \<and> cancellable f \<and> url f = api_url cfg
           \<and> body f = LegacyCancel (Some i)
           \<and> (if oc = [] then cancel_msg f = None
               else \<exists>names. other_api_names (dependencies cfg) oc = Inr names
                      \<and> cancel_msg f = Some (also_cancels_msg names))"
proof -
  obtain i oc where m: "min_from cand cands = (i, oc)" by (cases "min_from cand cands")
  show ?thesis
  proof (cases "oc = []")
    case True
    with old cs mk m show ?thesis by (auto simp: make_cancel_def)
  next
    case False
    with old cs mk m show ?thesis
      by (auto simp: make_cancel_def split: sum.splits)
  qed
qed

lemma also_cancels_msg_nonempty: "also_cancels_msg names \<noteq> []"
  by (simp add: also_cancels_msg_def)

text \<open>
  C9: on a server whose version is not greater than 4.29.0, the cancel function of an
  endpoint with a helper is built from the dependencies that list the endpoint's index
  under \<open>cancels\<close>. When there is none, \<open>make_cancel\<close> succeeds and running the cancel
  function only warns the caller: no request is sent. When there are some and
  \<open>make_cancel\<close> returns the cancel function, running it posts one request to the
  prediction URL whose \<open>fn_index\<close> is the position \<open>i\<close> of a dependency that lists the
  endpoint's index, and no dependency that lists it cancels fewer other indices than
  that one; the request is preceded by a warning exactly when that dependency cancels
  other indices too.
\<close>

theorem legacy_cancel:
  assumes "\<not> release_gt (app_version cfg) [4, 29, 0]"
  shows "(candidates_from 0 (fn_index ep) (dependencies cfg) = [] \<longrightarrow>
            make_cancel cfg ep (Some helper) =
              Inr (Some \<lparr>cancel_msg = Some not_cancellable_msg, cancellable = False,
                         url = api_url cfg, body = LegacyCancel None\<rparr>)
          \<and> run_cancel cfg w h \<lparr>cancel_msg = Some not_cancellable_msg, cancellable = False,
                         url = api_url cfg, body = LegacyCancel None\<rparr>
              = ([Warn not_cancellable_msg], None))
       \<and> (candidates_from 0 (fn_index ep) (dependencies cfg) \<noteq> []
            \<and> make_cancel cfg ep (Some helper) = Inr (Some f) \<longrightarrow>
            (\<exists>i. i < length (dependencies cfg)
               \<and> fn_index ep \<in> set (cancels (dependencies cfg ! i))
               \<and> (\<forall>j. j < length (dependencies cfg)
                       \<and> fn_index ep \<in> set (cancels (dependencies cfg ! j)) \<longrightarrow>
                     length (filter (\<lambda>d. d \<noteq> fn_index ep) (cancels (dependencies cfg ! i)))
                       \<le> length (filter (\<lambda>d. d \<noteq> fn_index ep) (cancels (dependencies cfg ! j))))
               \<and> (\<exists>warned.
                     fst (run_cancel cfg w h f) =
                       warned @
                       [Post \<lparr>req_url = api_url cfg,
                              req_json = [(''data'', JArr []), (''fn_index'', JNum (int i)),
                                          (''session_hash'', JStr (session_hash cfg))]\<rparr>]
                   \<and> (if filter (\<lambda>d. d \<noteq> fn_index ep) (cancels (dependencies cfg ! i)) = []
                       then warned = []
                       else \<exists>names.
                              other_api_names (dependencies cfg)
                                (filter (\<lambda>d. d \<noteq> fn_index ep) (cancels (dependencies cfg ! i)))
                                = Inr names
                              \<and> warned = [Warn (also_cancels_msg names)]))))"
proof (intro conjI impI)
  assume "candidates_from 0 (fn_index ep) (dependencies cfg) = []"
  with assms show "make_cancel cfg ep (Some helper) =
              Inr (Some \<lparr>cancel_msg = Some not_cancellable_msg, cancellable = False,
                         url = api_url cfg, body = LegacyCancel None\<rparr>)"
    by (simp add: make_cancel_def)
next
  show "run_cancel cfg w h \<lparr>cancel_msg = Some not_cancellable_msg, cancellable = False,
                         url = api_url cfg, body = LegacyCancel None\<rparr>
              = ([Warn not_cancellable_msg], None)"
    by (simp add: run_cancel_def not_cancellable_msg_def)
next
  let ?fi = "fn_index ep" and ?deps = "dependencies cfg"
  let ?others = "\<lambda>k. filter (\<lambda>d. d \<noteq> ?fi) (cancels (?deps ! k))"
  assume a: "candidates_from 0 ?fi ?deps \<noteq> [] \<and> make_cancel cfg ep (Some helper) = Inr (Some f)"
  then obtain cand cands where cs: "candidates_from 0 ?fi ?deps = cand # cands"
    by (cases "candidates_from 0 ?fi ?deps") auto
  from make_cancel_legacy_some[OF assms cs] a obtain i oc where
    m: "min_from cand cands = (i, oc)" and f: "cancellable f" "url f = api_url cfg"
      "body f = LegacyCancel (Some i)"
    and msg: "if oc = [] then cancel_msg f = None
               else \<exists>names. other_api_names ?deps oc = Inr names
                      \<and> cancel_msg f = Some (also_cancels_msg names)"
    by blast
  from min_from_mem[of cand cands] m cs have "(i, oc) \<in> set (candidates_from 0 ?fi ?deps)"
    by simp
  then have i: "i < length ?deps" "?fi \<in> set (cancels (?deps ! i))" "oc = ?others i"
    by (simp_all add: candidates_from_mem)
  have least: "\<forall>j. j < length ?deps \<and> ?fi \<in> set (cancels (?deps ! j)) \<longrightarrow>
      length (?others i) \<le> length (?others j)"
  proof (intro allI impI)
    fix j assume "j < length ?deps \<and> ?fi \<in> set (cancels (?deps ! j))"
    then have "(j, ?others j) \<in> set (candidates_from 0 ?fi ?deps)"
      by (simp add: candidates_from_mem)
    with cs have "(j, ?others j) \<in> set (cand # cands)" by simp
    from min_from_least[OF this] m i(3) show "length (?others i) \<le> length (?others j)"
      by simp
  qed
  have run: "\<exists>warned.
       fst (run_cancel cfg w h f) =
         warned @ [Post \<lparr>req_url = api_url cfg,
                      req_json = [(''data'', JArr []), (''fn_index'', JNum (int i)),
                                  (''session_hash'', JStr (session_hash cfg))]\<rparr>]
     \<and> (if ?others i = [] then warned = []
         else \<exists>names. other_api_names ?deps (?others i) = Inr names
                \<and> warned = [Warn (also_cancels_msg names)])"
  proof (cases "oc = []")
    case True
    with msg f i(3) show ?thesis
      by (simp add: run_cancel_def post_data_json_def Let_def)
  next
    case False
    with msg obtain names where "other_api_names ?deps oc = Inr names"
      "cancel_msg f = Some (also_cancels_msg names)" by auto
    with False f i(3) also_cancels_msg_nonempty[of names] show ?thesis
      by (simp add: run_cancel_def post_data_json_def Let_def)
  qed
  from i least run show "\<exists>i. i < length ?deps \<and> ?fi \<in> set (cancels (?deps ! i))
     \<and> (\<forall>j. j < length ?deps \<and> ?fi \<in> set (cancels (?deps ! j)) \<longrightarrow>
            length (?others i) \<le> length (?others j))
     \<and> (\<exists>warned.
       fst (run_cancel cfg w h f) =
         warned @ [Post \<lparr>req_url = api_url cfg,
                      req_json = [(''data'', JArr []), (''fn_index'', JNum (int i)),
                                  (''session_hash'', JStr (session_hash cfg))]\<rparr>]
     \<and> (if ?others i = [] then warned = []
         else \<exists>names. other_api_names ?deps (?others i) = Inr names
                \<and> warned = [Warn (also_cancels_msg names)]))"
    by blast
qed

theorem legacy_cancel_witness:
  "\<not> release_gt (app_version demo_config) [4, 29, 0]
   \<and> candidates_from 0 (fn_index pair_endpoint) (dependencies demo_config) = []
   \<and> make_cancel demo_config pair_endpoint (Some demo_communicator) =
        Inr (Some \<lparr>cancel_msg = Some not_cancellable_msg, cancellable = False,
                   url = api_url demo_config, body = LegacyCancel None\<rparr>)
   \<and> run_cancel demo_config demo_world demo_communicator
        \<lparr>cancel_msg = Some not_cancellable_msg, cancellable = False,
         url = api_url demo_config, body = LegacyCancel None\<rparr>
        = ([Warn not_cancellable_msg], None)
   \<and> candidates_from 0 (fn_index calc_endpoint) (dependencies demo_config) = [(1, [])]
   \<and> make_cancel demo_config calc_endpoint (Some demo_communicator) =
        Inr (Some \<lparr>cancel_msg = None, cancellable = True,
                   url = api_url demo_config, body = LegacyCancel (Some 1)\<rparr>)
   \<and> run_cancel demo_config demo_world demo_communicator
        \<lparr>cancel_msg = None, cancellable = True,
         url = api_url demo_config, body = LegacyCancel (Some 1)\<rparr>
        = ([Post \<lparr>req_url = ''http://host/api/predict/'',
                   req_json = [(''data'', JArr []), (''fn_index'', JNum 1),
                               (''session_hash'', JStr ''s'')]\<rparr>], None)"
proof -
  have v: "\<not> release_gt (app_version demo_config) [4, 29, 0]"
    by (simp add: demo_config_def)
  have c0: "candidates_from 0 (fn_index pair_endpoint) (dependencies demo_config) = []"
    by (simp add: demo_config_def pair_endpoint_def)
  have c1: "candidates_from 0 (fn_index calc_endpoint) (dependencies demo_config) = [(1, [])]"
    by (simp add: demo_config_def calc_endpoint_def)
  from legacy_cancel[OF v, THEN conjunct1, rule_format, OF c0]
  have 1: "make_cancel demo_config pair_endpoint (Some demo_communicator) =
        Inr (Some \<lparr>cancel_msg = Some not_cancellable_msg, cancellable = False,
                   url = api_url demo_config, body = LegacyCancel None\<rparr>)
   \<and> run_cancel demo_config demo_world demo_communicator
        \<lparr>cancel_msg = Some not_cancellable_msg, cancellable = False,
         url = api_url demo_config, body = LegacyCancel None\<rparr>
        = ([Warn not_cancellable_msg], None)" .
  have 2: "make_cancel demo_config calc_endpoint (Some demo_communicator) =
        Inr (Some \<lparr>cancel_msg = None, cancellable = True,
                   url = api_url demo_config, body = LegacyCancel (Some 1)\<rparr>)"
    using v c1 by (simp add: make_cancel_def)
  have 3: "run_cancel demo_config demo_world demo_communicator
        \<lparr>cancel_msg = None, cancellable = True,
         url = api_url demo_config, body = LegacyCancel (Some 1)\<rparr>
        = ([Post \<lparr>req_url = ''http://host/api/predict/'',
                   req_json = [(''data'', JArr []), (''fn_index'', JNum 1),
                               (''session_hash'', JStr ''s'')]\<rparr>], None)"
    by (simp add: run_cancel_def post_data_json_def Let_def demo_config_def demo_world_def)
  from v c0 1 c1 2 3 show ?thesis by simp
qed

section \<open>The status of a cancelled job (C4)\<close>

lemma Job_status_cancelled:
  assumes "communicator j = Some comm" and "should_cancel comm"
  shows "Job_status now j =
    \<lparr>code = CANCELLED, rank = Some 0, queue_size = None, success = Some False,
     time = Some now, eta = None, progress_data = None\<rparr>"
  using assms by (simp add: Job_status_def)

lemma Job_cancel_with_communicator:
  assumes "communicator j = Some comm"
  shows "\<exists>r effs. Job_cancel cfg w j = (r, j\<lparr>communicator := Some (comm\<lparr>should_cancel := True\<rparr>)\<rparr>, effs)
     \<and> (r = Inr True \<or> (\<exists>e. r = Inl e))"
  using assms by (auto simp: Job_cancel_def Let_def split: option.splits prod.splits)

text \<open>
  C4: for a job with a communicator, once \<open>cancel()\<close> has returned it has returned
  \<open>True\<close>, and from then on \<open>status()\<close> reports \<open>CANCELLED\<close> with \<open>success = False\<close>,
  whatever state the future is in or reaches and whatever status and outputs the worker
  records on the communicator.
\<close>

theorem status_after_cancel:
  assumes "communicator j = Some comm"
    and "Job_cancel cfg w j = (Inr b, j', effs)"
  shows "b
       \<and> code (Job_status now (j'\<lparr>future := f,
              communicator := map_option (\<lambda>cm. cm\<lparr>job := js, helper_event_id := eid\<rparr>)
                                (communicator j')\<rparr>)) = CANCELLED
       \<and> success (Job_status now (j'\<lparr>future := f,
              communicator := map_option (\<lambda>cm. cm\<lparr>job := js, helper_event_id := eid\<rparr>)
                                (communicator j')\<rparr>)) = Some False"
proof -
  from Job_cancel_with_communicator[OF assms(1), of cfg w] assms(2)
  have b: "b" and j': "j' = j\<lparr>communicator := Some (comm\<lparr>should_cancel := True\<rparr>)\<rparr>"
    by auto
  have "Job_status now (j'\<lparr>future := f,
              communicator := map_option (\<lambda>cm. cm\<lparr>job := js, helper_event_id := eid\<rparr>)
                                (communicator j')\<rparr>) =
    \<lparr>code = CANCELLED, rank = Some 0, queue_size = None, success = Some False,
     time = Some now, eta = None, progress_data = None\<rparr>"
    by (rule Job_status_cancelled[where comm = "comm\<lparr>should_cancel := True, job := js,
          helper_event_id := eid\<rparr>"]) (simp_all add: j')
  with b show ?thesis by simp
qed

theorem status_after_cancel_witness:
  "communicator finished_job = Some demo_communicator
   \<and> Job_cancel demo_config demo_world finished_job
       = (Inr True, finished_job\<lparr>communicator := Some (demo_communicator\<lparr>should_cancel := True\<rparr>)\<rparr>, [])
   \<and> code (Job_status 7 (finished_job\<lparr>communicator := Some (demo_communicator\<lparr>should_cancel := True\<rparr>),
         future := demo_future\<lparr>state := F_RUNNING\<rparr>\<rparr>)) = CANCELLED
   \<and> success (Job_status 7 (finished_job\<lparr>communicator := Some (demo_communicator\<lparr>should_cancel := True\<rparr>),
         future := demo_future\<rparr>)) = Some False"
proof -
  have a: "communicator finished_job = Some demo_communicator"
    by (simp add: finished_job_def)
  have c: "Job_cancel demo_config demo_world finished_job
       = (Inr True, finished_job\<lparr>communicator := Some (demo_communicator\<lparr>should_cancel := True\<rparr>)\<rparr>, [])"
    by (simp add: Job_cancel_def finished_job_def Let_def)
  from status_after_cancel[OF a c, where now = 7 and f = "demo_future\<lparr>state := F_RUNNING\<rparr>"
      and js = "job demo_communicator" and eid = "helper_event_id demo_communicator"]
  have 1: "code (Job_status 7 (finished_job\<lparr>communicator := Some (demo_communicator\<lparr>should_cancel := True\<rparr>),
         future := demo_future\<lparr>state := F_RUNNING\<rparr>\<rparr>)) = CANCELLED"
    by (simp add: finished_job_def)
  from status_after_cancel[OF a c, where now = 7 and f = demo_future
      and js = "job demo_communicator" and eid = "helper_event_id demo_communicator"]
  have 2: "success (Job_status 7 (finished_job\<lparr>communicator := Some (demo_communicator\<lparr>should_cancel := True\<rparr>),
         future := demo_future\<rparr>)) = Some False"
    by (simp add: finished_job_def)
  from a c 1 2 show ?thesis by simp
qed

section \<open>Cancellation after completion, and the blocking call (C5, C10)\<close>

text \<open>
  C5, as stated, fails for a job with a communicator: \<open>cancel()\<close> sets the cancellation
  flag whatever the state of the future, and \<open>status()\<close> looks at the flag first. A job
  whose future has finished with the value 9 reports \<open>FINISHED\<close>; after \<open>cancel()\<close>, which
  returns \<open>True\<close>, it reports \<open>CANCELLED\<close>.
\<close>

theorem finished_then_cancelled_counterexample:
  "state (future finished_job) = F_FINISHED (Inr (Bare (JNum 9)))
   \<and> code (Job_status 1 finished_job) = FINISHED
   \<and> fst (Job_cancel demo_config demo_world finished_job) = Inr True
   \<and> code (Job_status 2 (fst (snd (Job_cancel demo_config demo_world finished_job)))) = CANCELLED"
  by (simp add: Job_status_def Job_cancel_def Future_done_def Future_exception_def Let_def
      finished_job_def demo_future_def demo_communicator_def)

text \<open>
  C5, amended: \<open>cancel()\<close> never retracts the result a finished future holds. On a job
  without a communicator whose future has finished, \<open>cancel()\<close> returns \<open>False\<close>, leaves
  the job as it was, and \<open>status()\<close> goes on reporting \<open>FINISHED\<close> (with the success flag
  of the result). On a job with a communicator \<open>cancel()\<close> leaves the future untouched,
  so \<open>result()\<close> returns what it returned before, but \<open>status()\<close> reports \<open>CANCELLED\<close>
  from then on, from whatever state the job was in.
\<close>

theorem cancel_keeps_finished_result:
  "(communicator j = None \<and> state (future j) = F_FINISHED r \<longrightarrow>
      Job_cancel cfg w j = (Inr False, j, [])
      \<and> code (Job_status now j) = FINISHED
      \<and> success (Job_status now j) = Some (case r of Inl e \<Rightarrow> False | Inr v \<Rightarrow> True))
   \<and> (communicator j = Some comm \<longrightarrow>
      future (fst (snd (Job_cancel cfg w j))) = future j
      \<and> Job_result wait (fst (snd (Job_cancel cfg w j))) timeout = Job_result wait j timeout
      \<and> code (Job_status now (fst (snd (Job_cancel cfg w j)))) = CANCELLED)"
proof (intro conjI impI)
  assume a: "communicator j = None \<and> state (future j) = F_FINISHED r"
  then show "Job_cancel cfg w j = (Inr False, j, [])"
    by (simp add: Job_cancel_def Future_cancel_def)
  from a show "code (Job_status now j) = FINISHED"
    by (simp add: Job_status_def Future_done_def)
  from a show "success (Job_status now j) = Some (case r of Inl e \<Rightarrow> False | Inr v \<Rightarrow> True)"
    by (cases r) (simp_all add: Job_status_def Future_done_def Future_exception_def)
next
  assume a: "communicator j = Some comm"
  then have j': "fst (snd (Job_cancel cfg w j)) = j\<lparr>communicator := Some (comm\<lparr>should_cancel := True\<rparr>)\<rparr>"
    by (auto simp: Job_cancel_def Let_def split: option.splits prod.splits)
  show "future (fst (snd (Job_cancel cfg w j))) = future j" by (simp add: j')
  show "Job_result wait (fst (snd (Job_cancel cfg w j))) timeout = Job_result wait j timeout"
    by (simp add: j' Job_result_def)
  show "code (Job_status now (fst (snd (Job_cancel cfg w j)))) = CANCELLED"
    by (simp add: j' Job_status_def)
qed

theorem cancel_keeps_finished_result_witness:
  "communicator legacy_finished_job = None
   \<and> state (future legacy_finished_job) = F_FINISHED (Inr (Bare (JNum 9)))
   \<and> Job_cancel demo_config demo_world legacy_finished_job = (Inr False, legacy_finished_job, [])
   \<and> code (Job_status 3 legacy_finished_job) = FINISHED
   \<and> success (Job_status 3 legacy_finished_job) = Some True
   \<and> communicator finished_job = Some demo_communicator
   \<and> Job_result demo_wait (fst (snd (Job_cancel demo_config demo_world finished_job))) None
       = Some (Inr (Bare (JNum 9)))
   \<and> code (Job_status 3 (fst (snd (Job_cancel demo_config demo_world finished_job)))) = CANCELLED"
proof -
  have a: "communicator legacy_finished_job = None
     \<and> state (future legacy_finished_job) = F_FINISHED (Inr (Bare (JNum 9)))"
    by (simp add: legacy_finished_job_def finished_job_def demo_future_def)
  have b: "communicator finished_job = Some demo_communicator"
    by (simp add: finished_job_def)
  have r: "Job_result demo_wait finished_job None = Some (Inr (Bare (JNum 9)))"
    by (simp add: Job_result_def Future_result_def finished_job_def demo_future_def)
  note t1 = cancel_keeps_finished_result[THEN conjunct1, rule_format, OF a,
      where cfg = demo_config and w = demo_world and now = 3]
  note t2 = cancel_keeps_finished_result[THEN conjunct2, rule_format, OF b,
      where cfg = demo_config and w = demo_world and now = 3 and wait = demo_wait
        and timeout = None]
  from a b r t1 t2 show ?thesis by simp
qed

text \<open>
  C10: \<open>predict\<close> returns or raises exactly what \<open>submit\<close> with the same arguments
  followed by \<open>result()\<close> with no timeout returns or raises, and does not return when
  that does not: the index inference \<open>predict\<close> runs first only reads the configuration,
  and \<open>submit\<close> runs it again on the same arguments.
\<close>

theorem predict_is_submit_then_result:
  "predict cfg w wait args kwargs api_name fn_idx headers cbs
     = submit_then_result cfg w wait args kwargs api_name fn_idx headers cbs"
proof (cases "infer_fn_index cfg api_name fn_idx")
  case (Inl e)
  then show ?thesis by (simp add: predict_def submit_then_result_def submit_def)
next
  case (Inr i)
  then show ?thesis by (simp add: predict_def submit_then_result_def)
qed

theorem predict_is_submit_then_result_witness:
  "predict demo_config demo_world demo_wait [JNum 5] [] (Some ''/predict'') None None NoCallbacks
     = Some (Inr (Bare (JNum 9)))
   \<and> submit_then_result demo_config demo_world demo_wait [JNum 5] [] (Some ''/predict'') None None
        NoCallbacks = Some (Inr (Bare (JNum 9)))
   \<and> predict demo_config demo_world demo_wait [] [] (Some ''predict'') None None NoCallbacks
     = Some (Inl (ValueError (CannotFindApiName ''predict'' True)))"
proof -
  have i: "infer_fn_index demo_config (Some ''/predict'') None = Inr 0"
    by (simp add: infer_fn_index_def demo_config_def)
  have v: "\<not> release_gt (app_version demo_config) [4, 29, 0]"
    by (simp add: demo_config_def)
  have c1: "candidates_from 0 (fn_index calc_endpoint) (dependencies demo_config) = [(1, [])]"
    by (simp add: demo_config_def calc_endpoint_def)
  have ep: "map_of (endpoints demo_config) 0 = Some calc_endpoint"
    by (simp add: demo_config_def)
  have mc: "make_cancel demo_config calc_endpoint (Some (new_helper demo_world None)) =
        Inr (Some \<lparr>cancel_msg = None, cancellable = True,
                   url = api_url demo_config, body = LegacyCancel (Some 1)\<rparr>)"
    using v c1 by (simp add: make_cancel_def)
  have s: "submit_then_result demo_config demo_world demo_wait [JNum 5] [] (Some ''/predict'')
             None None NoCallbacks = Some (Inr (Bare (JNum 9)))"
    using i ep mc
    by (simp add: submit_then_result_def submit_def Job_result_def Future_result_def Let_def
        calc_endpoint_def demo_world_def demo_wait_def)
  have i2: "infer_fn_index demo_config (Some ''predict'') None
             = Inl (ValueError (CannotFindApiName ''predict'' True))"
    by (simp add: infer_fn_index_def demo_config_def)
  have s2: "submit_then_result demo_config demo_world demo_wait [] [] (Some ''predict'')
             None None NoCallbacks = Some (Inl (ValueError (CannotFindApiName ''predict'' True)))"
    using i2 by (simp add: submit_then_result_def submit_def)
  from s s2 predict_is_submit_then_result[of demo_config demo_world demo_wait "[JNum 5]" "[]"
      "Some ''/predict''" None None NoCallbacks]
    predict_is_submit_then_result[of demo_config demo_world demo_wait "[]" "[]"
      "Some ''predict''" None None NoCallbacks]
  show ?thesis by simp
qed

end
